theory Spec2Isabelle
  imports Main
begin

section \<open>Platform values: strings, numbers and dates\<close>

text \<open>
  The dashboard scripts are JavaScript. Numbers that the scripts use as counters, day
  numbers and millisecond time values are integers and are modelled by \<open>int\<close>.
  Strings are modelled by \<open>string\<close>, one \<open>char\<close> per code unit of the script's
  string, so \<open>length\<close> is the script's \<open>.length\<close>.

  \<open>showInt\<close> is the conversion of an integer to its decimal text, as a template literal
  or \<open>String(n)\<close> performs it (\<open>showNat\<close> writes the digits of a number that is
  not negative); \<open>pad2\<close> is \<open>String(n).padStart(2, '0')\<close>. A number that is
  NaN is modelled by \<open>None\<close> in an \<open>int option\<close>.
\<close>

definition digitChar :: "int \<Rightarrow> char" where
  "digitChar n = char_of (48 + n)"

function showNat :: "int \<Rightarrow> string" where
  "showNat n = (if n < 10 then [digitChar n] else showNat (n div 10) @ [digitChar (n mod 10)])"
  by pat_completeness auto
termination
  by (relation "measure nat") auto

declare showNat.simps [simp del]

definition showInt :: "int \<Rightarrow> string" where
  "showInt n = (if n < 0 then CHR ''-'' # showNat (- n) else showNat n)"

definition padStart2 :: "string \<Rightarrow> string" where
  "padStart2 s = replicate (2 - length s) CHR ''0'' @ s"

definition pad2 :: "int \<Rightarrow> string" where
  "pad2 n = padStart2 (showInt n)"

text \<open>
  \<open>trim\<close> removes leading and trailing white space. The white-space code units that a
  \<open>char\<close> can hold are tab, line feed, vertical tab, form feed, carriage return, space
  and the no-break space.
\<close>

definition isWhiteSpace :: "char \<Rightarrow> bool" where
  "isWhiteSpace c \<longleftrightarrow> of_char c \<in> {9, 10, 11, 12, 13, 32, 160 :: nat}"

definition trim :: "string \<Rightarrow> string" where
  "trim s = rev (dropWhile isWhiteSpace (rev (dropWhile isWhiteSpace s)))"

subsection \<open>The Gregorian calendar of the Date object\<close>

text \<open>
  A \<open>Date\<close> is kept by its fields in local time: \<open>getFullYear\<close>, \<open>getMonth\<close>
  (0 to 11), \<open>getDate\<close> (1 to 31) and the milliseconds elapsed since local midnight.
  The day arithmetic is the one of the language standard: \<open>dayFromYear\<close> is the day
  number of 1 January of a year (day 0 is 1 January 1970, a Thursday), \<open>weekDay\<close> is 0
  for Sunday up to 6 for Saturday. The local zone is taken to have one offset, without
  daylight saving changes.
\<close>

record jsdate =
  getFullYear :: int
  getMonth :: int
  getDate :: int
  getMsOfDay :: int

definition inLeapYear :: "int \<Rightarrow> bool" where
  "inLeapYear y \<longleftrightarrow> y mod 4 = 0 \<and> (y mod 100 \<noteq> 0 \<or> y mod 400 = 0)"

definition daysInMonthOf :: "int \<Rightarrow> int \<Rightarrow> int" where
  "daysInMonthOf y m =
     (if m = 1 then (if inLeapYear y then 29 else 28)
      else if m = 3 \<or> m = 5 \<or> m = 8 \<or> m = 10 then 30
      else 31)"

definition dayFromYear :: "int \<Rightarrow> int" where
  "dayFromYear y =
     365 * (y - 1970) + (y - 1969) div 4 - (y - 1901) div 100 + (y - 1601) div 400"

definition monthStart :: "int \<Rightarrow> int \<Rightarrow> int" where
  "monthStart y m =
     (let l = (if inLeapYear y then 1 else 0) in
      if m \<le> 0 then 0
      else if m = 1 then 31
      else if m = 2 then 59 + l
      else if m = 3 then 90 + l
      else if m = 4 then 120 + l
      else if m = 5 then 151 + l
      else if m = 6 then 181 + l
      else if m = 7 then 212 + l
      else if m = 8 then 243 + l
      else if m = 9 then 273 + l
      else if m = 10 then 304 + l
      else 334 + l)"

definition dayNumber :: "int \<Rightarrow> int \<Rightarrow> int \<Rightarrow> int" where
  "dayNumber y m d = dayFromYear y + monthStart y m + d - 1"

definition weekDay :: "int \<Rightarrow> int" where
  "weekDay day = (day + 4) mod 7"

definition getDay :: "jsdate \<Rightarrow> int" where
  "getDay d = weekDay (dayNumber (getFullYear d) (getMonth d) (getDate d))"

text \<open>
  \<open>getTime\<close> is the time value of a date in milliseconds since the epoch (UTC), for a
  local zone \<open>tz\<close> minutes east of UTC.
\<close>

definition msPerDay :: int where
  "msPerDay = 86400000"

definition getTime :: "int \<Rightarrow> jsdate \<Rightarrow> int" where
  "getTime tz d =
     dayNumber (getFullYear d) (getMonth d) (getDate d) * msPerDay + getMsOfDay d - tz * 60000"

text \<open>
  \<open>newDate tz y m d\<close> is \<open>new Date(y, m, d)\<close> in the zone \<open>tz\<close>: local midnight
  of day \<open>d\<close> of month \<open>m\<close> of year \<open>y\<close>. The constructor reads a year from 0
  to 99 as 1900 plus that year, carries a month outside 0 to 11 into the year, and
  carries a day outside the month into the neighbouring months (day 0 is the last day
  of the month before). A time value lies within 100,000,000 days on either side of the
  epoch (\<open>validTime\<close>); beyond that the constructor yields an Invalid Date, modelled
  by \<open>None\<close>, whose getters yield NaN.
\<close>

definition validTime :: "int \<Rightarrow> bool" where
  "validTime t \<longleftrightarrow> - 8640000000000000 \<le> t \<and> t \<le> 8640000000000000"

definition makeFullYear :: "int \<Rightarrow> int" where
  "makeFullYear y = (if 0 \<le> y \<and> y \<le> 99 then 1900 + y else y)"

definition prevMonthOf :: "int \<Rightarrow> int \<Rightarrow> int \<times> int" where
  "prevMonthOf y m = (if m = 0 then (y - 1, 11) else (y, m - 1))"

definition nextMonthOf :: "int \<Rightarrow> int \<Rightarrow> int \<times> int" where
  "nextMonthOf y m = (if m = 11 then (y + 1, 0) else (y, m + 1))"

function carryDay :: "int \<Rightarrow> int \<Rightarrow> int \<Rightarrow> jsdate" where
  "carryDay y m d =
     (if d < 1 then
        (case prevMonthOf y m of (y', m') \<Rightarrow> carryDay y' m' (d + daysInMonthOf y' m'))
      else if daysInMonthOf y m < d then
        (case nextMonthOf y m of (y', m') \<Rightarrow> carryDay y' m' (d - daysInMonthOf y m))
      else \<lparr>getFullYear = y, getMonth = m, getDate = d, getMsOfDay = 0\<rparr>)"
  by pat_completeness auto
termination
  by (relation "measure (\<lambda>(y, m, d). if d < 1 then nat (1 - d) + 31 else nat d)")
     (auto simp: daysInMonthOf_def prevMonthOf_def nextMonthOf_def split: if_splits)

declare carryDay.simps [simp del]

definition newDate :: "int \<Rightarrow> int \<Rightarrow> int \<Rightarrow> int \<Rightarrow> jsdate option" where
  "newDate tz y m d =
     (let yv = makeFullYear y;
          dt = carryDay (yv + m div 12) (m mod 12) d
      in if validTime (getTime tz dt) then Some dt else None)"

text \<open>
  \<open>parseDate tz text\<close> is the time value of \<open>new Date(text)\<close>, \<open>None\<close> standing
  for an Invalid Date (whose time value is NaN). Two forms of the standard's date-time
  format are read: the date-only form \<open>YYYY-MM-DD\<close>, which denotes midnight UTC, and
  the forms \<open>YYYY-MM-DDTHH:mm\<close> and \<open>YYYY-MM-DDTHH:mm:ss\<close> without a zone, which
  denote local time. Any other text is taken to be invalid; the standard leaves texts
  outside its format to the implementation, and browsers read some of them (a day
  past the end of its month, fields of one digit), so the model is exact for texts in
  the two forms whose day exists.
\<close>

definition digitVal :: "char \<Rightarrow> int option" where
  "digitVal c =
     (let n = (of_char c :: nat) in if 48 \<le> n \<and> n \<le> 57 then Some (int n - 48) else None)"

fun digitsVal :: "int \<Rightarrow> string \<Rightarrow> int option" where
  "digitsVal acc [] = Some acc"
| "digitsVal acc (c # cs) =
     (case digitVal c of None \<Rightarrow> None | Some v \<Rightarrow> digitsVal (10 * acc + v) cs)"

definition field :: "nat \<Rightarrow> nat \<Rightarrow> string \<Rightarrow> int option" where
  "field start len s = digitsVal 0 (take len (drop start s))"

definition parseDay :: "string \<Rightarrow> int option" where
  "parseDay s =
     (if 10 \<le> length s \<and> s ! 4 = CHR ''-'' \<and> s ! 7 = CHR ''-'' then
        (case (field 0 4 s, field 5 2 s, field 8 2 s) of
           (Some y, Some m, Some d) \<Rightarrow>
             if 1 \<le> m \<and> m \<le> 12 \<and> 1 \<le> d \<and> d \<le> daysInMonthOf y (m - 1)
             then Some (dayNumber y (m - 1) d) else None
         | _ \<Rightarrow> None)
      else None)"

definition parseClock :: "string \<Rightarrow> int option" where
  "parseClock s =
     (if (length s = 16 \<or> length s = 19 \<and> s ! 16 = CHR '':'') \<and> s ! 10 = CHR ''T''
          \<and> s ! 13 = CHR '':'' then
        (case (field 11 2 s, field 14 2 s, if length s = 19 then field 17 2 s else Some 0) of
           (Some h, Some mi, Some sec) \<Rightarrow>
             if h \<le> 23 \<and> mi \<le> 59 \<and> sec \<le> 59
             then Some (h * 3600000 + mi * 60000 + sec * 1000) else None
         | _ \<Rightarrow> None)
      else None)"

definition parseDate :: "int \<Rightarrow> string \<Rightarrow> int option" where
  "parseDate tz s =
     (if length s = 10 then map_option (\<lambda>d. d * msPerDay) (parseDay s)
      else
        (case (parseDay s, parseClock s) of
           (Some d, Some ms) \<Rightarrow> Some (d * msPerDay + ms - tz * 60000)
         | _ \<Rightarrow> None))"

text \<open>
  \<open>sortBy cmp xs\<close> is \<open>xs.sort(cmp)\<close>: the array sort is stable, and a comparison
  result that is NaN counts as 0. Under a comparator that orders the elements
  consistently the stably sorted array is unique; the insertion sort computes it.
  Under any other comparator the standard fixes only that the result is a permutation
  of the array.
\<close>

fun insertBy :: "('a \<Rightarrow> 'a \<Rightarrow> int) \<Rightarrow> 'a \<Rightarrow> 'a list \<Rightarrow> 'a list" where
  "insertBy cmp x [] = [x]"
| "insertBy cmp x (y # ys) = (if cmp x y \<le> 0 then x # y # ys else y # insertBy cmp x ys)"

fun sortBy :: "('a \<Rightarrow> 'a \<Rightarrow> int) \<Rightarrow> 'a list \<Rightarrow> 'a list" where
  "sortBy cmp [] = []"
| "sortBy cmp (x # xs) = insertBy cmp x (sortBy cmp xs)"

section \<open>The dashboard state\<close>

text \<open>
  A calendar event, a chat participant and a chat message carry the fields of the loaded
  JSON records. An icon is emoji text and is kept as its list of Unicode code points.
  The two time stamps \<open>lastMessageTime\<close> and \<open>msgTime\<close> are ISO texts of time values
  (\<open>toISOString\<close>) and are represented by the time value itself.
\<close>

record event =
  evId :: int
  title :: string
  description :: string
  date :: string
  time :: string
  category :: string
  icon :: "int list"

record participant =
  pId :: string
  name :: string
  pType :: string
  online :: bool
  lastMessage :: string
  lastMessageTime :: int
  unread :: int

record message =
  msgId :: string
  msgFrom :: string
  msgText :: string
  msgTime :: int
  sent :: bool

text \<open>
  The chat data is the parsed \<open>messages.json\<close>: the participants array and the object
  mapping a participant id to its thread, which a document may lack. The map holds the
  object's own properties.
\<close>

record chat_data =
  participants :: "participant list"
  messages :: "(string \<rightharpoonup> message list) option"

subsection \<open>What the page shows\<close>

text \<open>
  The document is modelled by the elements the scripts look up. An element that the
  page may lack is an \<open>option\<close>, \<open>None\<close> for a missing element; its value is the
  content the scripts write into it, kept as data (the records and numbers that the
  markup templates interpolate) instead of markup text. Labels that only reformat a
  value already kept (relative times, localised date labels) are left out. The texts
  interpolated are taken to be free of markup, as the templates take them.
\<close>

datatype display = DisplayDefault | DisplayNone | DisplayBlock | DisplayFlex

record cell =
  cellOtherMonth :: bool
  cellToday :: bool
  cellDate :: "int option"
  cellEvents :: "event list"
  cellMore :: "int option"

datatype mini_day = MiniEmpty | MiniDay int bool bool

datatype 'a listing = EmptyState string | Listing "'a list"

record navlink =
  linkText :: string
  linkActive :: bool

record pitem =
  itemId :: string
  itemActive :: bool
  itemOnline :: bool
  itemInitial :: string
  itemName :: string
  itemPreview :: string
  itemUnread :: "int option"

datatype plist = LoadingState | ParticipantsEmpty string | ParticipantItems "pitem list"

record bubble =
  bubbleSent :: bool
  bubbleText :: string

datatype thread_view = ThreadCleared | ChatEmpty | Bubbles "bubble list"

datatype call = InitializeDashboard | LoadProfilePage | SetupChatSearch

text \<open>
  The state is the \<open>DoctorDashboard\<close> object (the fields up to \<open>activeFilters\<close>),
  the elements of the page, the URLs fetched so far and the calls made to procedures
  that only touch parts of the page outside this state.
\<close>

record world =
  patientsData :: "unit option"
  filesData :: "unit option"
  chatData :: "chat_data option"
  calendarEvents :: "event list"
  activeChat :: "string option"
  activeSection :: string
  activeScheduleView :: string
  currentFilter :: string
  currentDate :: jsdate
  activeFilters :: "string list"
  dashboardSection :: "display option"
  scheduleSection :: "display option"
  profileSection :: "display option"
  messagesSection :: "display option"
  navLinks :: "navlink list"
  scheduleCalendarView :: "display option"
  scheduleMeetingsView :: "display option"
  scheduleUpcomingView :: "display option"
  scheduleConsultationsView :: "display option"
  scheduleMeetingsCount :: "int option"
  scheduleEventsCount :: "int option"
  calendarBody :: "cell list option"
  calendarTitle :: "string option"
  miniCalendarBody :: "mini_day list option"
  upcomingEventsList :: "event list option"
  todaysEventsList :: "event listing option"
  meetingsListContainer :: "event listing option"
  upcomingEventsFullList :: "event listing option"
  consultationsListContainer :: "event listing option"
  participantsList :: "plist option"
  chatHeaderPlaceholder :: "display option"
  chatHeaderActive :: "display option"
  chatName :: "string option"
  chatStatus :: "string option"
  chatAvatarInitial :: "string option"
  chatMessages :: "thread_view option"
  messageInput :: "string option"
  fetched :: "string list"
  calls :: "call list"

section \<open>Built-in data\<close>

definition FallbackData_calendarEvents :: "event list" where
  "FallbackData_calendarEvents =
    [\<lparr>evId = 1, title = ''Patient Consultation'', description = ''Alice Tan - Recovery Progress Review'',
      date = ''2025-12-16'', time = ''09:00'', category = ''consultation'', icon = [128105, 8205, 9877, 65039]\<rparr>,
     \<lparr>evId = 2, title = ''Team Meeting'', description = ''Weekly physio team sync'',
      date = ''2025-12-16'', time = ''11:00'', category = ''meeting'', icon = [128101]\<rparr>,
     \<lparr>evId = 3, title = ''Therapy Session'', description = ''Robert Chen - Motor Function'',
      date = ''2025-12-16'', time = ''14:00'', category = ''therapy'', icon = [127939]\<rparr>,
     \<lparr>evId = 4, title = ''Patient Checkup'', description = ''Maria Santos - Balance Assessment'',
      date = ''2025-12-17'', time = ''10:00'', category = ''checkup'', icon = [128203]\<rparr>,
     \<lparr>evId = 5, title = ''Consultation'', description = ''New patient intake - David Kim'',
      date = ''2025-12-17'', time = ''13:00'', category = ''consultation'', icon = [128105, 8205, 9877, 65039]\<rparr>,
     \<lparr>evId = 6, title = ''Department Meeting'', description = ''Monthly review with neurology dept'',
      date = ''2025-12-18'', time = ''09:30'', category = ''meeting'', icon = [128101]\<rparr>,
     \<lparr>evId = 7, title = ''Therapy Review'', description = ''Susan Park - Upper limb progress'',
      date = ''2025-12-18'', time = ''15:00'', category = ''therapy'', icon = [127939]\<rparr>,
     \<lparr>evId = 8, title = ''Patient Consultation'', description = ''John Williams - Speech therapy update'',
      date = ''2025-12-19'', time = ''11:00'', category = ''consultation'', icon = [128105, 8205, 9877, 65039]\<rparr>,
     \<lparr>evId = 9, title = ''Checkup'', description = ''Emma Thompson - Spinal assessment'',
      date = ''2025-12-19'', time = ''14:30'', category = ''checkup'', icon = [128203]\<rparr>,
     \<lparr>evId = 10, title = ''Team Sync'', description = ''Physio progress reports'',
      date = ''2025-12-20'', time = ''10:00'', category = ''meeting'', icon = [128101]\<rparr>]"

definition monthNames :: "string list" where
  "monthNames = [''January'', ''February'', ''March'', ''April'', ''May'', ''June'',
     ''July'', ''August'', ''September'', ''October'', ''November'', ''December'']"

definition monthName :: "int \<Rightarrow> string" where
  "monthName m = (if 0 \<le> m \<and> m < 12 then monthNames ! nat m else ''undefined'')"

section \<open>Schedule: the calendar and the views derived from it\<close>

text \<open>
  A renderer reads the clock with \<open>new Date()\<close>. The readings of one rendering pass
  are modelled as one reading \<open>now\<close>, passed to the renderer together with the zone
  \<open>tz\<close> of the browser (minutes east of UTC).
\<close>

definition setText :: "'a option \<Rightarrow> 'a \<Rightarrow> 'a option" where
  "setText el v = (case el of None \<Rightarrow> None | Some _ \<Rightarrow> Some v)"

definition setDisplay :: "display option \<Rightarrow> display \<Rightarrow> display option" where
  "setDisplay el v = (case el of None \<Rightarrow> None | Some _ \<Rightarrow> Some v)"

definition dateText :: "int \<Rightarrow> int \<Rightarrow> int \<Rightarrow> string" where
  "dateText y m d = showInt y @ ''-'' @ pad2 (m + 1) @ ''-'' @ pad2 d"

definition isSameDay :: "jsdate \<Rightarrow> int \<Rightarrow> int \<Rightarrow> int \<Rightarrow> bool" where
  "isSameDay tdy y m d \<longleftrightarrow> d = getDate tdy \<and> m = getMonth tdy \<and> y = getFullYear tdy"

text \<open>
  The local variables that \<open>renderCalendar\<close> computes before its loop. The three
  numbers read from constructed dates are NaN when the date is invalid. A comparison
  with NaN is false (\<open>below\<close> is \<open><\<close>, \<open>upTo\<close> is \<open><=\<close>), and arithmetic
  on NaN yields NaN.
\<close>

record calendar_grid =
  year :: int
  month :: int
  daysInMonth :: "int option"
  startingDayOfWeek :: "int option"
  prevMonthLastDay :: "int option"

definition mondayFirst :: "jsdate option \<Rightarrow> int option" where
  "mondayFirst firstDay =
     map_option (\<lambda>d. if getDay d = 0 then 6 else getDay d - 1) firstDay"

definition calendarGrid :: "int \<Rightarrow> jsdate \<Rightarrow> calendar_grid" where
  "calendarGrid tz cur =
     (let y = getFullYear cur;
          m = getMonth cur;
          firstDay = newDate tz y m 1;
          lastDay = newDate tz y (m + 1) 0
      in \<lparr>year = y, month = m,
          daysInMonth = map_option getDate lastDay,
          startingDayOfWeek = mondayFirst firstDay,
          prevMonthLastDay = map_option getDate (newDate tz y m 0)\<rparr>)"

definition below :: "int \<Rightarrow> int option \<Rightarrow> bool" where
  "below i x = (case x of None \<Rightarrow> False | Some v \<Rightarrow> i < v)"

definition upTo :: "int \<Rightarrow> int option \<Rightarrow> bool" where
  "upTo i x = (case x of None \<Rightarrow> False | Some v \<Rightarrow> i \<le> v)"

definition leadingDay :: "calendar_grid \<Rightarrow> int \<Rightarrow> int option" where
  "leadingDay g i =
     (case (prevMonthLastDay g, startingDayOfWeek g) of
        (Some p, Some st) \<Rightarrow> Some (p - st + i + 1)
      | _ \<Rightarrow> None)"

definition totalCells :: int where
  "totalCells = 42"

definition otherMonthCell :: "int option \<Rightarrow> cell" where
  "otherMonthCell d =
     \<lparr>cellOtherMonth = True, cellToday = False, cellDate = d, cellEvents = [], cellMore = None\<rparr>"

definition dayEventsOf :: "event list \<Rightarrow> string list \<Rightarrow> string \<Rightarrow> event list" where
  "dayEventsOf evs fs cellDateStr =
     filter (\<lambda>evt. date evt = cellDateStr \<and> category evt \<in> set fs) evs"

definition dayCell :: "event list \<Rightarrow> string list \<Rightarrow> jsdate \<Rightarrow> calendar_grid \<Rightarrow> int \<Rightarrow> cell" where
  "dayCell evs fs tdy g dayCounter =
     (let dayEvents = dayEventsOf evs fs (dateText (year g) (month g) dayCounter)
      in \<lparr>cellOtherMonth = False,
          cellToday = isSameDay tdy (year g) (month g) dayCounter,
          cellDate = Some dayCounter,
          cellEvents = take 3 dayEvents,
          cellMore = (if 3 < length dayEvents then Some (int (length dayEvents) - 3) else None)\<rparr>)"

function calendarLoop ::
  "event list \<Rightarrow> string list \<Rightarrow> jsdate \<Rightarrow> calendar_grid \<Rightarrow> int \<Rightarrow> int \<Rightarrow> int \<Rightarrow> cell list \<Rightarrow> cell list"
where
  "calendarLoop evs fs tdy g i dayCounter nextMonthCounter body =
     (if i < totalCells then
        (if below i (startingDayOfWeek g) then
           calendarLoop evs fs tdy g (i + 1) dayCounter nextMonthCounter
             (body @ [otherMonthCell (leadingDay g i)])
         else if upTo dayCounter (daysInMonth g) then
           calendarLoop evs fs tdy g (i + 1) (dayCounter + 1) nextMonthCounter
             (body @ [dayCell evs fs tdy g dayCounter])
         else
           calendarLoop evs fs tdy g (i + 1) dayCounter (nextMonthCounter + 1)
             (body @ [otherMonthCell (Some nextMonthCounter)]))
      else body)"
  by pat_completeness auto
termination
  by (relation "measure (\<lambda>(evs, fs, tdy, g, i, dc, nc, body). nat (totalCells - i))") auto

declare calendarLoop.simps [simp del]

text \<open>
  The two loops of \<open>renderMiniCalendar\<close> count up to a bound: the first runs for
  \<open>i\<close> from 0 while \<open>i < startDay\<close>, the second for \<open>day\<close> from 1 while
  \<open>day <= daysInMonth\<close>. A loop bounded by NaN does not run.
\<close>

definition timesBelow :: "int option \<Rightarrow> nat" where
  "timesBelow x = (case x of None \<Rightarrow> 0 | Some v \<Rightarrow> nat v)"

definition countTo :: "int \<Rightarrow> int option \<Rightarrow> int list" where
  "countTo a x = (case x of None \<Rightarrow> [] | Some v \<Rightarrow> [a..v])"

definition renderMiniCalendar :: "int \<Rightarrow> jsdate \<Rightarrow> world \<Rightarrow> world" where
  "renderMiniCalendar tz now s =
     (case miniCalendarBody s of
        None \<Rightarrow> s
      | Some _ \<Rightarrow>
          (let y = getFullYear (currentDate s);
               m = getMonth (currentDate s);
               firstDay = newDate tz y m 1;
               dim = map_option getDate (newDate tz y (m + 1) 0);
               startDay = mondayFirst firstDay
           in s\<lparr>miniCalendarBody := Some
                 (replicate (timesBelow startDay) MiniEmpty @
                  map (\<lambda>day. MiniDay day (isSameDay now y m day)
                                (\<exists>e \<in> set (calendarEvents s). date e = dateText y m day))
                      (countTo 1 dim))\<rparr>))"

definition isUpcoming :: "int \<Rightarrow> jsdate \<Rightarrow> event \<Rightarrow> bool" where
  "isUpcoming tz tdy evt =
     (case parseDate tz (date evt) of None \<Rightarrow> False | Some t \<Rightarrow> getTime tz tdy \<le> t)"

definition byDateTime :: "int \<Rightarrow> event \<Rightarrow> event \<Rightarrow> int" where
  "byDateTime tz a b =
     (case (parseDate tz (date a @ ''T'' @ time a), parseDate tz (date b @ ''T'' @ time b)) of
        (Some x, Some y) \<Rightarrow> x - y
      | _ \<Rightarrow> 0)"

definition renderUpcomingEvents :: "int \<Rightarrow> jsdate \<Rightarrow> world \<Rightarrow> world" where
  "renderUpcomingEvents tz now s =
     (case upcomingEventsList s of
        None \<Rightarrow> s
      | Some _ \<Rightarrow>
          s\<lparr>upcomingEventsList := Some
              (take 10 (sortBy (byDateTime tz)
                 (filter (\<lambda>evt. isUpcoming tz now evt \<and> category evt \<in> set (activeFilters s))
                    (calendarEvents s))))\<rparr>)"

definition listingOf :: "string \<Rightarrow> 'a list \<Rightarrow> 'a listing" where
  "listingOf emptyText xs = (if length xs = 0 then EmptyState emptyText else Listing xs)"

definition renderTodaysEvents :: "jsdate \<Rightarrow> world \<Rightarrow> world" where
  "renderTodaysEvents now s =
     (case todaysEventsList s of
        None \<Rightarrow> s
      | Some _ \<Rightarrow>
          (let dateStr = dateText (getFullYear now) (getMonth now) (getDate now);
               todaysEvents = filter (\<lambda>e. date e = dateStr) (calendarEvents s)
           in s\<lparr>todaysEventsList := Some (listingOf ''No events scheduled for today'' todaysEvents)\<rparr>))"

definition renderCalendar :: "int \<Rightarrow> jsdate \<Rightarrow> world \<Rightarrow> world" where
  "renderCalendar tz now s =
     (if calendarBody s = None \<or> calendarTitle s = None then s
      else
        (let g = calendarGrid tz (currentDate s);
             s1 = s\<lparr>calendarTitle := Some (monthName (month g) @ '' '' @ showInt (year g)),
                    calendarBody := Some
                      (calendarLoop (calendarEvents s) (activeFilters s) now g 0 1 1 [])\<rparr>
         in renderTodaysEvents now (renderUpcomingEvents tz now (renderMiniCalendar tz now s1))))"

definition goToToday :: "int \<Rightarrow> jsdate \<Rightarrow> world \<Rightarrow> world" where
  "goToToday tz now s = renderCalendar tz now (s\<lparr>currentDate := now\<rparr>)"



text \<open>
  The full upcoming list first moves its clock reading to local midnight
  (\<open>today.setHours(0, 0, 0, 0)\<close>).
\<close>

definition renderUpcomingEventsFull :: "int \<Rightarrow> jsdate \<Rightarrow> world \<Rightarrow> world" where
  "renderUpcomingEventsFull tz now s =
     (case upcomingEventsFullList s of
        None \<Rightarrow> s
      | Some _ \<Rightarrow>
          (let today = now\<lparr>getMsOfDay := 0\<rparr>;
               upcoming = take 20 (sortBy (byDateTime tz)
                 (filter (\<lambda>e. isUpcoming tz today e) (calendarEvents s)))
           in s\<lparr>upcomingEventsFullList := Some (listingOf ''No upcoming events'' upcoming)\<rparr>))"






definition startFetch :: "string \<Rightarrow> world \<Rightarrow> world" where
  "startFetch url s = s\<lparr>fetched := fetched s @ [url]\<rparr>"



definition initializeScheduleViewStart :: "world \<Rightarrow> world" where
  "initializeScheduleViewStart s = startFetch ''../data/calendar-events.json'' s"


text \<open>
  \<open>filterEvents\<close> toggles a category in the array of active filters: \<open>indexOf\<close>
  finds the first position of the category, \<open>splice(index, 1)\<close> removes that one
  entry, \<open>push\<close> appends.
\<close>

fun indexOf :: "'a list \<Rightarrow> 'a \<Rightarrow> int" where
  "indexOf [] x = - 1"
| "indexOf (y # ys) x =
     (if y = x then 0 else (let r = indexOf ys x in if r = - 1 then - 1 else r + 1))"

definition splice1 :: "int \<Rightarrow> 'a list \<Rightarrow> 'a list" where
  "splice1 index xs = take (nat index) xs @ drop (nat index + 1) xs"

definition filterEvents :: "string \<Rightarrow> int \<Rightarrow> jsdate \<Rightarrow> world \<Rightarrow> world" where
  "filterEvents cat tz now s =
     (let index = indexOf (activeFilters s) cat
      in renderCalendar tz now
           (if - 1 < index then s\<lparr>activeFilters := splice1 index (activeFilters s)\<rparr>
            else s\<lparr>activeFilters := activeFilters s @ [cat]\<rparr>))"

section \<open>Messages: participants and threads\<close>

text \<open>
  The fallback participants carry time stamps relative to the moment \<open>t0\<close> at which
  the script was loaded (\<open>Date.now()\<close>). The scripts share the fallback array with
  \<open>chatData\<close>; the model copies it, so it does not follow a change of a fallback
  participant into a later fallback load.
\<close>

definition FallbackData_chatParticipants :: "int \<Rightarrow> participant list" where
  "FallbackData_chatParticipants t0 =
    [\<lparr>pId = ''p1'', name = ''Alice Tan'', pType = ''patient'', online = True,
      lastMessage = ''Thank you for the update, Doctor!'',
      lastMessageTime = t0 - 1800000, unread = 2\<rparr>,
     \<lparr>pId = ''p2'', name = ''Robert Chen'', pType = ''patient'', online = False,
      lastMessage = ''I'' @ [CHR 0x27] @ ''ll see you at the next session.'',
      lastMessageTime = t0 - 86400000, unread = 0\<rparr>,
     \<lparr>pId = ''p3'', name = ''Maria Santos'', pType = ''patient'', online = True,
      lastMessage = ''The exercises are helping a lot!'',
      lastMessageTime = t0 - 3600000, unread = 1\<rparr>,
     \<lparr>pId = ''pt1'', name = ''Dr. Sarah Johnson'', pType = ''physio'', online = True,
      lastMessage = ''Patient reports are ready for your review.'',
      lastMessageTime = t0 - 900000, unread = 1\<rparr>,
     \<lparr>pId = ''pt2'', name = ''Dr. Michael Lee'', pType = ''physio'', online = False,
      lastMessage = ''New protocol for stroke rehabilitation is ready.'',
      lastMessageTime = t0 - 5400000, unread = 3\<rparr>]"

text \<open>
  A procedure that can end in an uncaught exception returns how it ended together with
  the state it left behind: what it wrote before the exception stays written.
\<close>

datatype outcome = Returned | Threw

definition participantItem :: "string option \<Rightarrow> participant \<Rightarrow> pitem" where
  "participantItem active p =
     \<lparr>itemId = pId p,
      itemActive = (active = Some (pId p)),
      itemOnline = online p,
      itemInitial = take 1 (name p),
      itemName = name p,
      itemPreview = lastMessage p,
      itemUnread = (if 0 < unread p then Some (unread p) else None)\<rparr>"

definition byRecency :: "participant \<Rightarrow> participant \<Rightarrow> int" where
  "byRecency a b = lastMessageTime b - lastMessageTime a"

definition renderParticipants :: "string \<Rightarrow> world \<Rightarrow> world" where
  "renderParticipants filterType s =
     (case (participantsList s, chatData s) of
        (Some _, Some cd) \<Rightarrow>
          (let ps = (if filterType = ''patient''
                     then filter (\<lambda>p. pType p = ''patient'') (participants cd)
                     else if filterType = ''physio''
                     then filter (\<lambda>p. pType p = ''physio'') (participants cd)
                     else participants cd)
           in if length ps = 0 then
                s\<lparr>participantsList := Some (ParticipantsEmpty
                     (''No '' @ (if filterType = ''all'' then ''conversations''
                                else filterType @ ''s'') @ '' found''))\<rparr>
              else
                s\<lparr>participantsList := Some (ParticipantItems
                     (map (participantItem (activeChat s)) (sortBy byRecency ps))),
                  currentFilter := filterType\<rparr>)
      | _ \<Rightarrow> s)"

fun updateFirst :: "('a \<Rightarrow> bool) \<Rightarrow> ('a \<Rightarrow> 'a) \<Rightarrow> 'a list \<Rightarrow> 'a list" where
  "updateFirst P f [] = []"
| "updateFirst P f (x # xs) = (if P x then f x # xs else x # updateFirst P f xs)"

text \<open>
  \<open>clearActiveItems\<close> removes the class \<open>active\<close> from every participant item;
  \<open>markActiveItem v\<close> adds it to the first item whose \<open>data-id\<close> is \<open>v\<close>, if
  there is one.
\<close>

definition clearActiveItems :: "plist option \<Rightarrow> plist option" where
  "clearActiveItems el =
     (case el of
        Some (ParticipantItems items) \<Rightarrow>
          Some (ParticipantItems (map (\<lambda>i. i\<lparr>itemActive := False\<rparr>) items))
      | other \<Rightarrow> other)"

definition markActiveItem :: "string \<Rightarrow> plist option \<Rightarrow> plist option" where
  "markActiveItem v el =
     (case el of
        Some (ParticipantItems items) \<Rightarrow>
          Some (ParticipantItems
            (updateFirst (\<lambda>i. itemId i = v) (\<lambda>i. i\<lparr>itemActive := True\<rparr>) items))
      | other \<Rightarrow> other)"

text \<open>
  Reading \<open>messages[id]\<close> finds the thread that the object holds under \<open>id\<close> as
  its own property, and otherwise the property of that name inherited from
  \<open>Object.prototype\<close>, if the name is one of the twelve that it defines: eleven
  functions, kept by their \<open>length\<close>, and \<open>__proto__\<close>, which yields the prototype
  object itself. An inherited value is truthy, has no \<open>map\<close> and no \<open>push\<close>; the
  \<open>length\<close> of the prototype object is undefined.
\<close>

datatype inherited = InheritedFunction int | InheritedObject

definition objectPrototype :: "string \<Rightarrow> inherited option" where
  "objectPrototype key =
     (if key = ''constructor'' then Some (InheritedFunction 1)
      else if key = ''hasOwnProperty'' then Some (InheritedFunction 1)
      else if key = ''isPrototypeOf'' then Some (InheritedFunction 1)
      else if key = ''propertyIsEnumerable'' then Some (InheritedFunction 1)
      else if key = ''toLocaleString'' then Some (InheritedFunction 0)
      else if key = ''toString'' then Some (InheritedFunction 0)
      else if key = ''valueOf'' then Some (InheritedFunction 0)
      else if key = ''__defineGetter__'' then Some (InheritedFunction 2)
      else if key = ''__defineSetter__'' then Some (InheritedFunction 2)
      else if key = ''__lookupGetter__'' then Some (InheritedFunction 1)
      else if key = ''__lookupSetter__'' then Some (InheritedFunction 1)
      else if key = ''__proto__'' then Some InheritedObject
      else None)"

datatype property = Thread "message list" | Inherited inherited | Undefined

definition getProperty :: "(string \<rightharpoonup> message list) \<Rightarrow> string \<Rightarrow> property" where
  "getProperty mm key =
     (case mm key of
        Some t \<Rightarrow> Thread t
      | None \<Rightarrow> (case objectPrototype key of Some v \<Rightarrow> Inherited v | None \<Rightarrow> Undefined))"

definition messageBubble :: "message \<Rightarrow> bubble" where
  "messageBubble msg = \<lparr>bubbleSent = (msgFrom msg = ''me''), bubbleText = msgText msg\<rparr>"

text \<open>
  \<open>loadMessages\<close> reads \<open>messages?.[participantId] || []\<close>. On an inherited
  function of length 0 the test \<open>messages.length === 0\<close> succeeds and the empty state
  is shown; on any other inherited value the call of \<open>map\<close> throws, before the
  container is written.
\<close>

definition loadMessages :: "string \<Rightarrow> world \<Rightarrow> outcome \<times> world" where
  "loadMessages participantId s =
     (case chatMessages s of
        None \<Rightarrow> (Returned, s)
      | Some _ \<Rightarrow>
          (case chatData s of
             None \<Rightarrow> (Threw, s)
           | Some cd \<Rightarrow>
               (case (case messages cd of
                        None \<Rightarrow> Undefined
                      | Some mm \<Rightarrow> getProperty mm participantId) of
                  Thread msgs \<Rightarrow>
                    (Returned,
                     s\<lparr>chatMessages := Some
                         (if length msgs = 0 then ChatEmpty
                          else Bubbles (map messageBubble msgs))\<rparr>)
                | Undefined \<Rightarrow> (Returned, s\<lparr>chatMessages := Some ChatEmpty\<rparr>)
                | Inherited (InheritedFunction n) \<Rightarrow>
                    (if n = 0 then (Returned, s\<lparr>chatMessages := Some ChatEmpty\<rparr>)
                     else (Threw, s))
                | Inherited InheritedObject \<Rightarrow> (Threw, s))))"

text \<open>
  \<open>selectParticipant\<close> looks up the item to mark with the selector text
  \<open>.participant-item[data-id="id"]\<close>, built from the id as it is. How the browser
  reads that text is a parameter: \<open>sel id\<close> is \<open>None\<close> when the text is no valid
  selector, on which \<open>querySelector\<close> throws, and otherwise the value of \<open>data-id\<close>
  that the selector asks for. For an id of letters and digits that value is the id
  itself; a double quote in the id ends the quoted value early, and a backslash starts
  an escape.
\<close>

definition selectParticipant ::
  "(string \<Rightarrow> string option) \<Rightarrow> string \<Rightarrow> world \<Rightarrow> outcome \<times> world" where
  "selectParticipant sel participantId s =
     (let s1 = s\<lparr>activeChat := Some participantId\<rparr> in
      case chatData s1 of
        None \<Rightarrow> (Threw, s1)
      | Some cd \<Rightarrow>
          (case find (\<lambda>p. pId p = participantId) (participants cd) of
             None \<Rightarrow> (Returned, s1)
           | Some participant \<Rightarrow>
               (let cd' = cd\<lparr>participants :=
                            updateFirst (\<lambda>p. pId p = participantId) (\<lambda>p. p\<lparr>unread := 0\<rparr>)
                              (participants cd)\<rparr>;
                    s2 = s1\<lparr>chatData := Some cd',
                            participantsList := clearActiveItems (participantsList s1)\<rparr>
                in case sel participantId of
                     None \<Rightarrow> (Threw, s2)
                   | Some v \<Rightarrow>
                       (let s3 = s2\<lparr>participantsList := markActiveItem v (participantsList s2),
                                    chatHeaderPlaceholder :=
                                      setDisplay (chatHeaderPlaceholder s2) DisplayNone,
                                    chatHeaderActive := setDisplay (chatHeaderActive s2) DisplayFlex,
                                    chatName := setText (chatName s2) (name participant),
                                    chatStatus := setText (chatStatus s2)
                                      (if online participant then ''Online'' else ''Offline''),
                                    chatAvatarInitial := setText (chatAvatarInitial s2)
                                      (take 1 (name participant))\<rparr>
                        in case loadMessages participantId s3 of
                             (Threw, s4) \<Rightarrow> (Threw, s4)
                           | (Returned, s4) \<Rightarrow>
                               (Returned, renderParticipants (currentFilter s4) s4)))))"

text \<open>
  A value is falsy when it is \<open>null\<close> or the empty string. \<open>sendMessage\<close> reads the
  clock three times: \<open>tId\<close> for the message id, \<open>tMsg\<close> for the time of the message
  and \<open>tPart\<close> for the time recorded with the participant. When the active id names
  an inherited property, no thread is created (the inherited value is truthy) and the
  call of \<open>push\<close> throws, before anything is written.
\<close>

definition falsy :: "string option \<Rightarrow> bool" where
  "falsy v \<longleftrightarrow> (case v of None \<Rightarrow> True | Some t \<Rightarrow> t = [])"

definition sendMessage :: "int \<Rightarrow> int \<Rightarrow> int \<Rightarrow> world \<Rightarrow> outcome \<times> world" where
  "sendMessage tId tMsg tPart s =
     (case messageInput s of
        None \<Rightarrow> (Returned, s)
      | Some inputValue \<Rightarrow>
          (if falsy (activeChat s) then (Returned, s)
           else
             (let active = the (activeChat s);
                  text = trim inputValue
              in if falsy (Some text) then (Returned, s)
                 else
                   (case chatData s of
                      None \<Rightarrow> (Threw, s)
                    | Some cd \<Rightarrow>
                        (case messages cd of
                           None \<Rightarrow> (Threw, s)
                         | Some mm \<Rightarrow>
                             (case getProperty mm active of
                                Inherited _ \<Rightarrow> (Threw, s)
                              | found \<Rightarrow>
                                  (let thread = (case found of Thread t \<Rightarrow> t | _ \<Rightarrow> []);
                                       msg = \<lparr>msgId = ''m'' @ showInt tId, msgFrom = ''me'',
                                              msgText = text, msgTime = tMsg, sent = True\<rparr>;
                                       cd' = cd\<lparr>messages := Some (mm(active \<mapsto> thread @ [msg])),
                                                participants :=
                                                  updateFirst (\<lambda>p. pId p = active)
                                                    (\<lambda>p. p\<lparr>lastMessage := text,
                                                            lastMessageTime := tPart\<rparr>)
                                                    (participants cd)\<rparr>;
                                       s1 = s\<lparr>chatData := Some cd', messageInput := Some []\<rparr>
                                   in case loadMessages active s1 of
                                        (Threw, s2) \<Rightarrow> (Threw, s2)
                                      | (Returned, s2) \<Rightarrow>
                                          (Returned,
                                           renderParticipants (currentFilter s2) s2))))))))"

definition filterChatParticipants :: "string \<Rightarrow> world \<Rightarrow> world" where
  "filterChatParticipants t s = renderParticipants t s"

definition resetChatToDefaultState :: "world \<Rightarrow> world" where
  "resetChatToDefaultState s =
     s\<lparr>chatHeaderPlaceholder := setDisplay (chatHeaderPlaceholder s) DisplayFlex,
       chatHeaderActive := setDisplay (chatHeaderActive s) DisplayNone,
       chatMessages := setText (chatMessages s) ThreadCleared,
       messageInput := setText (messageInput s) [],
       participantsList := clearActiveItems (participantsList s)\<rparr>"

text \<open>
  The outcome of fetching \<open>messages.json\<close>: a rejected fetch, a response that is not
  ok, a body that is not JSON, the JSON value \<open>null\<close>, or a JSON object with its
  \<open>participants\<close> and \<open>messages\<close> members, either of which may be absent.
\<close>

datatype chat_response =
  ChatFetchRejected | ChatNotOk | ChatMalformed | ChatNull
  | ChatBody "participant list option" "(string \<rightharpoonup> message list) option"

definition fallbackChatData :: "int \<Rightarrow> chat_data" where
  "fallbackChatData t0 =
     \<lparr>participants = FallbackData_chatParticipants t0, messages = Some Map.empty\<rparr>"

definition loadChatData :: "int \<Rightarrow> chat_response \<Rightarrow> chat_data" where
  "loadChatData t0 resp =
     (case resp of
        ChatBody (Some ps) mm \<Rightarrow>
          (if length ps = 0 then fallbackChatData t0 else \<lparr>participants = ps, messages = mm\<rparr>)
      | _ \<Rightarrow> fallbackChatData t0)"

definition initializeChatStart :: "world \<Rightarrow> world" where
  "initializeChatStart s =
     startFetch ''../data/messages.json''
       (s\<lparr>participantsList := setText (participantsList s) LoadingState\<rparr>)"

definition chatLoaded :: "int \<Rightarrow> chat_response \<Rightarrow> world \<Rightarrow> world" where
  "chatLoaded t0 resp s =
     (let s1 = renderParticipants ''all'' (s\<lparr>chatData := Some (loadChatData t0 resp)\<rparr>)
      in resetChatToDefaultState (s1\<lparr>calls := calls s1 @ [SetupChatSearch]\<rparr>))"

definition initializeChat :: "int \<Rightarrow> chat_response \<Rightarrow> world \<Rightarrow> world" where
  "initializeChat t0 resp s = chatLoaded t0 resp (initializeChatStart s)"

section \<open>Navigation between the sections\<close>

text \<open>
  \<open>showSection\<close> hides the four sections, shows the one named and starts its
  initialiser, marks the navigation links whose lower-cased, trimmed text contains the
  name, and records the name. Of an asynchronous initialiser only the start belongs to
  the call; \<open>initializeDashboard\<close> and \<open>loadProfilePage\<close> write to parts of the
  page outside the state and are recorded in \<open>calls\<close>.
\<close>

definition toLowerChar :: "char \<Rightarrow> char" where
  "toLowerChar c =
     (let n = (of_char c :: nat)
      in if (65 \<le> n \<and> n \<le> 90) \<or> (192 \<le> n \<and> n \<le> 222 \<and> n \<noteq> 215)
         then char_of (n + 32) else c)"

definition toLowerCase :: "string \<Rightarrow> string" where
  "toLowerCase s = map toLowerChar s"

fun includesText :: "string \<Rightarrow> string \<Rightarrow> bool" where
  "includesText [] sub = (sub = [])"
| "includesText (c # cs) sub = (take (length sub) (c # cs) = sub \<or> includesText cs sub)"

definition hideSections :: "world \<Rightarrow> world" where
  "hideSections s =
     s\<lparr>dashboardSection := setDisplay (dashboardSection s) DisplayNone,
       scheduleSection := setDisplay (scheduleSection s) DisplayNone,
       profileSection := setDisplay (profileSection s) DisplayNone,
       messagesSection := setDisplay (messagesSection s) DisplayNone\<rparr>"

definition updateNavLinks :: "string \<Rightarrow> navlink list \<Rightarrow> navlink list" where
  "updateNavLinks sectionName links =
     map (\<lambda>l. l\<lparr>linkActive := includesText (trim (toLowerCase (linkText l))) sectionName\<rparr>) links"

definition showSection :: "string \<Rightarrow> world \<Rightarrow> world" where
  "showSection sectionName s =
     (let s1 = hideSections s;
          s2 =
            (if sectionName = ''dashboard'' then
               (let s' = s1\<lparr>dashboardSection := setDisplay (dashboardSection s1) DisplayBlock\<rparr>
                in if patientsData s' = None \<or> filesData s' = None
                   then s'\<lparr>calls := calls s' @ [InitializeDashboard]\<rparr> else s')
             else if sectionName = ''schedule'' then
               initializeScheduleViewStart
                 (s1\<lparr>scheduleSection := setDisplay (scheduleSection s1) DisplayBlock\<rparr>)
             else if sectionName = ''profile'' then
               (let s' = s1\<lparr>profileSection := setDisplay (profileSection s1) DisplayBlock\<rparr>
                in s'\<lparr>calls := calls s' @ [LoadProfilePage]\<rparr>)
             else if sectionName = ''messages'' then
               initializeChatStart
                 (s1\<lparr>messagesSection := setDisplay (messagesSection s1) DisplayBlock,
                     activeChat := None\<rparr>)
             else s1)
      in s2\<lparr>navLinks := updateNavLinks sectionName (navLinks s2),
            activeSection := sectionName\<rparr>)"

text \<open>A section is visible when its element exists and is not hidden.\<close>

definition visible :: "display option \<Rightarrow> bool" where
  "visible el \<longleftrightarrow> (case el of None \<Rightarrow> False | Some d \<Rightarrow> d \<noteq> DisplayNone)"

definition visibleSections :: "world \<Rightarrow> string list" where
  "visibleSections s =
     (if visible (dashboardSection s) then [''dashboard''] else []) @
     (if visible (scheduleSection s) then [''schedule''] else []) @
     (if visible (messagesSection s) then [''messages''] else []) @
     (if visible (profileSection s) then [''profile''] else [])"

section \<open>The login form\<close>

text \<open>
  The login page is a state of its own: the values of the three inputs, the three error
  elements, the submit button, the login requests sent, the stored user and the address
  the page has been sent to.
\<close>

record error_el =
  errText :: string
  ariaLive :: "string option"
  authErrorClass :: bool

record button =
  isLoading :: bool
  disabled :: bool

record user =
  userName :: string
  userRole :: string

record login_page =
  loginEmail :: "string option"
  loginPassword :: "string option"
  loginRole :: "string option"
  emailError :: "error_el option"
  passwordError :: "error_el option"
  roleError :: "error_el option"
  loginBtn :: "button option"
  loginRequests :: "(string \<times> string) list"
  storedUser :: "user option"
  location :: "string option"

definition writeError :: "string \<Rightarrow> error_el option \<Rightarrow> error_el option" where
  "writeError msg el =
     map_option (\<lambda>e. e\<lparr>errText := msg, ariaLive := Some ''assertive''\<rparr>) el"

definition showError :: "string \<Rightarrow> string \<Rightarrow> login_page \<Rightarrow> login_page" where
  "showError fieldId msg pg =
     (if fieldId = ''emailError'' then pg\<lparr>emailError := writeError msg (emailError pg)\<rparr>
      else if fieldId = ''passwordError'' then pg\<lparr>passwordError := writeError msg (passwordError pg)\<rparr>
      else if fieldId = ''roleError'' then pg\<lparr>roleError := writeError msg (roleError pg)\<rparr>
      else pg)"

definition wipeError :: "error_el option \<Rightarrow> error_el option" where
  "wipeError el =
     map_option (\<lambda>e. if authErrorClass e then e\<lparr>errText := [], ariaLive := None\<rparr> else e) el"

definition clearAllErrors :: "login_page \<Rightarrow> login_page" where
  "clearAllErrors pg =
     pg\<lparr>emailError := wipeError (emailError pg),
        passwordError := wipeError (passwordError pg),
        roleError := wipeError (roleError pg)\<rparr>"

definition setButtonLoading :: "bool \<Rightarrow> login_page \<Rightarrow> login_page" where
  "setButtonLoading loading pg =
     pg\<lparr>loginBtn := map_option (\<lambda>b. b\<lparr>isLoading := loading, disabled := loading\<rparr>) (loginBtn pg)\<rparr>"

definition validatePassword :: "string \<Rightarrow> bool" where
  "validatePassword password \<longleftrightarrow> 8 \<le> length password"

text \<open>
  \<open>handleLogin\<close> up to the point where the request is sent. A missing password input
  yields \<open>undefined\<close>, on which \<open>validatePassword\<close> throws.
\<close>

definition handleLogin :: "login_page \<Rightarrow> outcome \<times> login_page" where
  "handleLogin pg =
     (let p0 = clearAllErrors pg;
          identifier = loginEmail p0;
          password = loginPassword p0;
          role = loginRole p0;
          e1 = (falsy identifier \<or> trim (the identifier) = []);
          p1 = (if e1 then showError ''emailError'' ''Please enter your username or email'' p0
                else p0)
      in case password of
           None \<Rightarrow> (Threw, p1)
         | Some pw \<Rightarrow>
             (let e2 = (\<not> validatePassword pw);
                  p2 = (if e2 then
                          showError ''passwordError'' ''Password must be at least 8 characters'' p1
                        else p1);
                  e3 = falsy role;
                  p3 = (if e3 then showError ''roleError'' ''Please select your role'' p2 else p2);
                  hasError = (e1 \<or> e2 \<or> e3)
              in if hasError then (Returned, p3)
                 else (Returned,
                       (setButtonLoading True p3)
                         \<lparr>loginRequests := loginRequests p3 @ [(the identifier, pw)]\<rparr>)))"

text \<open>The continuation of \<open>handleLogin\<close> once the request has settled.\<close>

datatype login_response =
  LoginRejected | LoginMalformed | LoginNull | LoginData bool "user option" "string option"

definition dashboardOf :: "string \<Rightarrow> string" where
  "dashboardOf role =
     (if role = ''patient'' then ''/pages/patient-dashboard.html''
      else if role = ''doctor'' then ''/pages/docktor-dashboard.html''
      else if role = ''physio'' then ''/pages/physio-dashboard.html''
      else ''/pages/patient-dashboard.html'')"

definition loginSettled :: "string \<Rightarrow> login_response \<Rightarrow> login_page \<Rightarrow> login_page" where
  "loginSettled role resp pg =
     (case resp of
        LoginData success usr msg \<Rightarrow>
          (if success \<and> usr \<noteq> None then
             (let u = the usr in
              if userRole u \<noteq> role then
                setButtonLoading False
                  (showError ''roleError'' (''This account is registered as '' @ userRole u) pg)
              else pg\<lparr>storedUser := Some u, location := Some (dashboardOf (userRole u))\<rparr>)
           else
             setButtonLoading False
               (showError ''passwordError''
                  (if falsy msg then ''Login failed. Please try again.'' else the msg) pg))
      | _ \<Rightarrow>
          setButtonLoading False
            (showError ''passwordError''
               ''Connection error. Please ensure the server is running.'' pg))"

section \<open>Example states\<close>

text \<open>
  \<open>pageLoaded now\<close> is the state after the script has been loaded at the clock reading
  \<open>now\<close>, on a page that has every element the scripts look up: the initial
  \<open>DoctorDashboard\<close> object and empty elements.
\<close>

definition pageLoaded :: "jsdate \<Rightarrow> world" where
  "pageLoaded now =
     \<lparr>patientsData = None, filesData = None, chatData = None, calendarEvents = [],
      activeChat = None, activeSection = ''dashboard'', activeScheduleView = ''calendar'',
      currentFilter = ''all'', currentDate = now,
      activeFilters = [''meeting'', ''consultation'', ''therapy'', ''checkup''],
      dashboardSection = Some DisplayDefault, scheduleSection = Some DisplayDefault,
      profileSection = Some DisplayDefault, messagesSection = Some DisplayDefault,
      navLinks = [\<lparr>linkText = ''Dashboard'', linkActive = False\<rparr>,
                  \<lparr>linkText = ''Schedule'', linkActive = False\<rparr>,
                  \<lparr>linkText = ''Messages'', linkActive = False\<rparr>,
                  \<lparr>linkText = ''Profile'', linkActive = False\<rparr>],
      scheduleCalendarView = Some DisplayDefault, scheduleMeetingsView = Some DisplayDefault,
      scheduleUpcomingView = Some DisplayDefault, scheduleConsultationsView = Some DisplayDefault,
      scheduleMeetingsCount = Some 0, scheduleEventsCount = Some 0,
      calendarBody = Some [], calendarTitle = Some [], miniCalendarBody = Some [],
      upcomingEventsList = Some [], todaysEventsList = Some (Listing []),
      meetingsListContainer = Some (Listing []), upcomingEventsFullList = Some (Listing []),
      consultationsListContainer = Some (Listing []),
      participantsList = Some (ParticipantItems []),
      chatHeaderPlaceholder = Some DisplayDefault, chatHeaderActive = Some DisplayDefault,
      chatName = Some [], chatStatus = Some [], chatAvatarInitial = Some [],
      chatMessages = Some ThreadCleared, messageInput = Some [],
      fetched = [], calls = []\<rparr>"

definition at :: "int \<Rightarrow> int \<Rightarrow> int \<Rightarrow> int \<Rightarrow> int \<Rightarrow> jsdate" where
  "at y m d h mi =
     \<lparr>getFullYear = y, getMonth = m, getDate = d, getMsOfDay = h * 3600000 + mi * 60000\<rparr>"

definition loginForm :: "string \<Rightarrow> string \<Rightarrow> string \<Rightarrow> login_page" where
  "loginForm identifier password role =
     \<lparr>loginEmail = Some identifier, loginPassword = Some password, loginRole = Some role,
      emailError = Some \<lparr>errText = [], ariaLive = None, authErrorClass = True\<rparr>,
      passwordError = Some \<lparr>errText = [], ariaLive = None, authErrorClass = True\<rparr>,
      roleError = Some \<lparr>errText = [], ariaLive = None, authErrorClass = True\<rparr>,
      loginBtn = Some \<lparr>isLoading = False, disabled = False\<rparr>,
      loginRequests = [], storedUser = None, location = None\<rparr>"

definition chatReady :: world where
  "chatReady = (pageLoaded (at 2025 11 16 10 0))\<lparr>chatData := Some (fallbackChatData 0)\<rparr>"

text \<open>Observations of the chat state that the properties below are stated with.\<close>

definition renderedItems :: "world \<Rightarrow> pitem list" where
  "renderedItems s =
     (case participantsList s of Some (ParticipantItems items) \<Rightarrow> items | _ \<Rightarrow> [])"

definition admits :: "string \<Rightarrow> participant \<Rightarrow> bool" where
  "admits filterType p \<longleftrightarrow>
     (if filterType = ''patient'' then pType p = ''patient''
      else if filterType = ''physio'' then pType p = ''physio'' else True)"

definition participantOf :: "world \<Rightarrow> string \<Rightarrow> participant option" where
  "participantOf s pid =
     (case chatData s of None \<Rightarrow> None | Some cd \<Rightarrow> find (\<lambda>p. pId p = pid) (participants cd))"

text \<open>
  \<open>threadOf cd pid\<close> is the thread that the message map holds under \<open>pid\<close>, empty
  when it holds none.
\<close>

definition threadOf :: "chat_data \<Rightarrow> string \<Rightarrow> message list" where
  "threadOf cd pid =
     (case messages cd of
        None \<Rightarrow> []
      | Some mm \<Rightarrow> (case mm pid of None \<Rightarrow> [] | Some t \<Rightarrow> t))"

definition threadIn :: "world \<Rightarrow> string \<Rightarrow> message list" where
  "threadIn s pid = (case chatData s of None \<Rightarrow> [] | Some cd \<Rightarrow> threadOf cd pid)"

definition sendReady :: world where
  "sendReady = chatReady\<lparr>activeChat := Some ''p1'', messageInput := Some ''  See you at 9  ''\<rparr>"

definition sectionElement :: "world \<Rightarrow> string \<Rightarrow> display option" where
  "sectionElement s sectionName =
     (if sectionName = ''dashboard'' then dashboardSection s
      else if sectionName = ''schedule'' then scheduleSection s
      else if sectionName = ''messages'' then messagesSection s
      else if sectionName = ''profile'' then profileSection s
      else None)"

definition knownSection :: "string \<Rightarrow> bool" where
  "knownSection sectionName \<longleftrightarrow>
     sectionName = ''dashboard'' \<or> sectionName = ''schedule''
     \<or> sectionName = ''messages'' \<or> sectionName = ''profile''"

text \<open>Observations of the schedule views, and a state holding the fallback events.\<close>

definition listed :: "'a listing option \<Rightarrow> 'a list" where
  "listed el = (case el of Some (Listing xs) \<Rightarrow> xs | _ \<Rightarrow> [])"

definition upcomingIds :: "world \<Rightarrow> int list" where
  "upcomingIds s = (case upcomingEventsList s of None \<Rightarrow> [] | Some es \<Rightarrow> map evId es)"

definition todaysIds :: "world \<Rightarrow> int list" where
  "todaysIds s = map evId (listed (todaysEventsList s))"

definition upcomingFullIds :: "world \<Rightarrow> int list" where
  "upcomingFullIds s = map evId (listed (upcomingEventsFullList s))"

definition scheduleLoaded :: "jsdate \<Rightarrow> world" where
  "scheduleLoaded now = (pageLoaded now)\<lparr>calendarEvents := FallbackData_calendarEvents\<rparr>"

text \<open>
  Notions for stating the properties of the month grid: the cells of the current month,
  the position of a weekday in a week that starts on Monday (0 for Monday up to 6 for
  Sunday), and the cell that the loop of \<open>renderCalendar\<close> produces at index \<open>i\<close>,
  in closed form.
\<close>

definition currentMonthCells :: "cell list \<Rightarrow> cell list" where
  "currentMonthCells cells = filter (\<lambda>c. \<not> cellOtherMonth c) cells"

definition mondayIndex :: "int \<Rightarrow> int \<Rightarrow> int \<Rightarrow> int" where
  "mondayIndex y m d = (weekDay (dayNumber y m d) + 6) mod 7"

definition cellAt ::
  "event list \<Rightarrow> string list \<Rightarrow> jsdate \<Rightarrow> calendar_grid \<Rightarrow> int \<Rightarrow> int \<Rightarrow> int \<Rightarrow> int \<Rightarrow> cell"
where
  "cellAt evs fs tdy g lead dim p i =
     (if i < lead then otherMonthCell (Some (p - lead + i + 1))
      else if i - lead < dim then dayCell evs fs tdy g (i - lead + 1)
      else otherMonthCell (Some (i - lead - dim + 1)))"

definition gridCells :: "world \<Rightarrow> cell list" where
  "gridCells s = (case calendarBody s of None \<Rightarrow> [] | Some cells \<Rightarrow> cells)"







text \<open>
  The change that \<open>filterEvents\<close> makes to the array of active filters, on its own,
  and a sequence of calls of \<open>filterEvents\<close>, each with its category and the clock
  reading of its rendering pass. An event is well timed when its date and time together
  parse as a date-time.
\<close>

definition toggle :: "string \<Rightarrow> string list \<Rightarrow> string list" where
  "toggle cat fs =
     (let index = indexOf fs cat in if - 1 < index then splice1 index fs else fs @ [cat])"





text \<open>
  A chat whose only participant has the id \<open>constructor\<close> and two unread messages,
  with the participant list rendered.
\<close>

definition inheritedNameChat :: world where
  "inheritedNameChat =
     renderParticipants ''all''
       ((pageLoaded (at 2025 11 16 10 0))
          \<lparr>chatData := Some
             \<lparr>participants =
                [\<lparr>pId = ''constructor'', name = ''Alice Tan'', pType = ''patient'',
                  online = True, lastMessage = ''Thank you for the update, Doctor!'',
                  lastMessageTime = 0, unread = 2\<rparr>],
              messages = Some Map.empty\<rparr>\<rparr>)"


section \<open>Properties of the chat state\<close>

lemma find_None_image: "x \<notin> f ` set xs \<Longrightarrow> find (\<lambda>p. f p = x) xs = None"
  by (auto simp: find_None_iff)

text \<open>
  C10. When \<open>selectParticipant\<close> is called with an id that no loaded participant has,
  the call returns after recording the id as the active chat: the resulting state is
  the old state with \<open>activeChat\<close> replaced, so the participant records with their
  unread counts, the message map and the chat header are as before.
\<close>

theorem selectParticipant_unknown_id:
  assumes "chatData s = Some cd" and "pid \<notin> pId ` set (participants cd)"
  shows "selectParticipant sel pid s = (Returned, s\<lparr>activeChat := Some pid\<rparr>)"
  using assms by (simp add: selectParticipant_def find_None_image)

theorem selectParticipant_unknown_id_witness:
  "chatData chatReady = Some (fallbackChatData 0)
   \<and> ''p9'' \<notin> pId ` set (participants (fallbackChatData 0))
   \<and> selectParticipant Some ''p9'' chatReady = (Returned, chatReady\<lparr>activeChat := Some ''p9''\<rparr>)"
proof -
  have a: "chatData chatReady = Some (fallbackChatData 0)"
    by (simp add: chatReady_def pageLoaded_def)
  have b: "''p9'' \<notin> pId ` set (participants (fallbackChatData 0))"
    by (simp add: fallbackChatData_def FallbackData_chatParticipants_def)
  show ?thesis using selectParticipant_unknown_id [OF a b, of Some] a b by simp
qed

lemma set_insertBy [simp]: "set (insertBy cmp x xs) = insert x (set xs)"
  by (induction xs) auto

lemma set_sortBy [simp]: "set (sortBy cmp xs) = set xs"
  by (induction xs) auto

lemma length_insertBy [simp]: "length (insertBy cmp x xs) = Suc (length xs)"
  by (induction xs) auto

lemma length_sortBy [simp]: "length (sortBy cmp xs) = length xs"
  by (induction xs) auto

lemma updateFirst_distinct:
  "distinct (map k xs) \<Longrightarrow>
   updateFirst (\<lambda>p. k p = a) f xs = map (\<lambda>p. if k p = a then f p else p) xs"
proof (induction xs)
  case Nil
  then show ?case by simp
next
  case (Cons x xs)
  show ?case
  proof (cases "k x = a")
    case True
    with Cons.prems have "\<forall>p \<in> set xs. k p \<noteq> a" by (auto simp: image_iff)
    then have "map (\<lambda>p. if k p = a then f p else p) xs = xs"
      by (induction xs) auto
    with True show ?thesis by simp
  next
    case False
    with Cons show ?thesis by simp
  qed
qed

lemma find_Some_image:
  "a \<in> k ` set xs \<Longrightarrow> \<exists>p. find (\<lambda>p. k p = a) xs = Some p \<and> k p = a \<and> p \<in> set xs"
  by (induction xs) auto

lemma getProperty_plain:
  "objectPrototype pid = None \<Longrightarrow>
   getProperty mm pid = (case mm pid of None \<Rightarrow> Undefined | Some t \<Rightarrow> Thread t)"
  by (simp add: getProperty_def split: option.splits)

lemma loadMessages_loaded:
  assumes "chatData s \<noteq> None" and "objectPrototype pid = None"
  shows "loadMessages pid s =
     (Returned,
      s\<lparr>chatMessages :=
          map_option (\<lambda>_. if length (threadOf (the (chatData s)) pid) = 0 then ChatEmpty
                           else Bubbles (map messageBubble (threadOf (the (chatData s)) pid)))
            (chatMessages s)\<rparr>)"
proof (cases "chatMessages s")
  case None
  then show ?thesis by (simp add: loadMessages_def)
next
  case (Some v)
  from assms(1) obtain cd where cd: "chatData s = Some cd" by blast
  show ?thesis
  proof (cases "messages cd")
    case None
    with Some cd show ?thesis by (simp add: loadMessages_def threadOf_def)
  next
    case mm: (Some mm)
    show ?thesis
    proof (cases "mm pid")
      case None
      with Some cd mm assms(2) show ?thesis
        by (simp add: loadMessages_def threadOf_def getProperty_plain)
    next
      case t: (Some t)
      with Some cd mm assms(2) show ?thesis
        by (simp add: loadMessages_def threadOf_def getProperty_plain)
    qed
  qed
qed

lemma renderParticipants_frame [simp]:
  "chatData (renderParticipants f s) = chatData s"
  "activeChat (renderParticipants f s) = activeChat s"
  by (simp_all add: renderParticipants_def Let_def split: option.splits)

lemma renderedItems_renderParticipants:
  assumes "chatData s = Some cd" and "participantsList s \<noteq> None"
  shows "set (renderedItems (renderParticipants f s)) =
     participantItem (activeChat s) ` {p \<in> set (participants cd). admits f p}"
proof -
  obtain el where el: "participantsList s = Some el" using assms(2) by blast
  define ps where "ps = filter (admits f) (participants cd)"
  have r: "renderedItems (renderParticipants f s) =
      map (participantItem (activeChat s)) (sortBy byRecency ps)"
    using assms(1) el
    by (cases "ps = []")
       (auto simp: renderParticipants_def renderedItems_def Let_def admits_def ps_def
          cong: filter_cong)
  show ?thesis unfolding r by (auto simp: ps_def)
qed

lemma renderedItems_renderParticipants_none:
  "participantsList s = None \<Longrightarrow> renderedItems (renderParticipants f s) = []"
  by (simp add: renderParticipants_def renderedItems_def)

lemma markActiveItem_None [simp]: "markActiveItem pid el = None \<longleftrightarrow> el = None"
  by (simp add: markActiveItem_def split: option.splits plist.splits)

lemma clearActiveItems_None [simp]: "clearActiveItems el = None \<longleftrightarrow> el = None"
  by (simp add: clearActiveItems_def split: option.splits plist.splits)

lemma setText_None [simp]: "setText el v = None \<longleftrightarrow> el = None"
  by (simp add: setText_def split: option.splits)

lemma selectParticipant_found:
  assumes "chatData s = Some cd" and "find (\<lambda>p. pId p = pid) (participants cd) = Some p"
    and "sel pid = Some v" and "objectPrototype pid = None"
  shows "\<exists>x. selectParticipant sel pid s = (Returned, renderParticipants (currentFilter s) x)
     \<and> chatData x =
         Some (cd\<lparr>participants :=
                 updateFirst (\<lambda>p. pId p = pid) (\<lambda>p. p\<lparr>unread := 0\<rparr>) (participants cd)\<rparr>)
     \<and> activeChat x = Some pid
     \<and> (participantsList x = None \<longleftrightarrow> participantsList s = None)"
  using assms
  apply (simp add: selectParticipant_def Let_def loadMessages_loaded split del: if_split)
  apply (intro exI conjI)
     apply (rule refl)
    apply simp_all
  done

text \<open>
  C5 (as amended). Let the chat be loaded with unique participant ids, and let \<open>pid\<close>
  be the id of one of the participants, such that the selector text built from it is a
  valid selector and it is not the name of a property inherited from
  \<open>Object.prototype\<close>. Then \<open>selectParticipant pid\<close> returns normally, makes
  \<open>pid\<close> the active chat and sets that participant's unread count to 0, leaving
  every other participant record as it was; in the participant list that the call
  renders again, every item of that participant is marked active and carries no unread
  badge, and the item is there whenever the list element exists and the current filter
  admits the participant.
\<close>

theorem selectParticipant_clears_unread:
  assumes cd: "chatData s = Some cd"
    and dist: "distinct (map pId (participants cd))"
    and mem: "pid \<in> pId ` set (participants cd)"
    and valid: "sel pid \<noteq> None"
    and plain: "objectPrototype pid = None"
  shows "\<exists>s' cd'. selectParticipant sel pid s = (Returned, s')
     \<and> activeChat s' = Some pid
     \<and> chatData s' = Some cd'
     \<and> participants cd' =
         map (\<lambda>p. if pId p = pid then p\<lparr>unread := 0\<rparr> else p) (participants cd)
     \<and> (\<forall>p \<in> set (participants cd'). pId p = pid \<longrightarrow> unread p = 0)
     \<and> (\<forall>i \<in> set (renderedItems s'). itemId i = pid \<longrightarrow> itemUnread i = None \<and> itemActive i)
     \<and> (participantsList s \<noteq> None
          \<and> (\<forall>p \<in> set (participants cd). pId p = pid \<longrightarrow> admits (currentFilter s) p)
          \<longrightarrow> pid \<in> itemId ` set (renderedItems s'))"
proof -
  from find_Some_image [OF mem] obtain p where
    p: "find (\<lambda>p. pId p = pid) (participants cd) = Some p" "pId p = pid" "p \<in> set (participants cd)"
    by blast
  from valid obtain v where v: "sel pid = Some v" by blast
  define ps' where "ps' = map (\<lambda>p. if pId p = pid then p\<lparr>unread := 0\<rparr> else p) (participants cd)"
  define cd' where "cd' = cd\<lparr>participants := ps'\<rparr>"
  have cd'_eq: "cd' = cd\<lparr>participants :=
      updateFirst (\<lambda>p. pId p = pid) (\<lambda>p. p\<lparr>unread := 0\<rparr>) (participants cd)\<rparr>"
    by (simp only: cd'_def ps'_def updateFirst_distinct [OF dist])
  have ex: "\<exists>x. selectParticipant sel pid s = (Returned, renderParticipants (currentFilter s) x)
     \<and> chatData x = Some cd' \<and> activeChat x = Some pid
     \<and> (participantsList x = None \<longleftrightarrow> participantsList s = None)"
    using selectParticipant_found [where sel = sel and pid = pid, OF cd p(1) v plain] unfolding cd'_eq .
  then obtain x where
    x: "selectParticipant sel pid s = (Returned, renderParticipants (currentFilter s) x)"
      "chatData x = Some cd'" "activeChat x = Some pid"
      "participantsList x = None \<longleftrightarrow> participantsList s = None"
    by (elim exE conjE)
  define s' where "s' = renderParticipants (currentFilter s) x"
  have a: "activeChat s' = Some pid" by (simp add: s'_def x)
  have c: "chatData s' = Some cd'" by (simp add: s'_def x)
  have ps: "participants cd' = ps'" by (simp add: cd'_def)
  have z: "\<forall>q \<in> set (participants cd'). pId q = pid \<longrightarrow> unread q = 0"
  proof (intro ballI impI)
    fix q
    assume q: "q \<in> set (participants cd')" and qi: "pId q = pid"
    from q [unfolded ps ps'_def set_map] obtain r where
      r: "q = (if pId r = pid then r\<lparr>unread := 0\<rparr> else r)" "r \<in> set (participants cd)"
      by (rule imageE)
    show "unread q = 0"
    proof (cases "pId r = pid")
      case True
      with r(1) show ?thesis by simp
    next
      case False
      with r(1) qi show ?thesis by simp
    qed
  qed
  have items: "\<forall>i \<in> set (renderedItems s'). itemId i = pid \<longrightarrow> itemUnread i = None \<and> itemActive i"
  proof (cases "participantsList x = None")
    case True
    then show ?thesis by (simp add: s'_def renderedItems_renderParticipants_none)
  next
    case False
    show ?thesis
    proof (intro ballI impI)
      fix i
      assume i: "i \<in> set (renderedItems s')" and ii: "itemId i = pid"
      from i [unfolded s'_def renderedItems_renderParticipants [OF x(2) False]] obtain q where
        q0: "i = participantItem (activeChat x) q"
          "q \<in> {p \<in> set (participants cd'). admits (currentFilter s) p}"
        by (rule imageE)
      from q0 have q: "q \<in> set (participants cd')" "i = participantItem (activeChat x) q"
        by simp_all
      from q(2) ii have "pId q = pid" by (simp add: participantItem_def)
      with z q(1) have "unread q = 0" by blast
      with q(2) \<open>pId q = pid\<close> show "itemUnread i = None \<and> itemActive i"
        by (simp add: participantItem_def x)
    qed
  qed
  have shown: "participantsList s \<noteq> None
          \<and> (\<forall>p \<in> set (participants cd). pId p = pid \<longrightarrow> admits (currentFilter s) p)
          \<longrightarrow> pid \<in> itemId ` set (renderedItems s')"
  proof
    assume h: "participantsList s \<noteq> None
          \<and> (\<forall>p \<in> set (participants cd). pId p = pid \<longrightarrow> admits (currentFilter s) p)"
    then have ne: "participantsList x \<noteq> None" by (simp add: x)
    have adm: "admits (currentFilter s) (p\<lparr>unread := 0\<rparr>)"
      using h p by (simp add: admits_def)
    have "(\<lambda>p. if pId p = pid then p\<lparr>unread := 0\<rparr> else p) p \<in> set (participants cd')"
      unfolding ps ps'_def set_map using p(3) by (rule imageI)
    then have "p\<lparr>unread := 0\<rparr> \<in> set (participants cd')"
      using p(2) by simp
    then have m: "participantItem (activeChat x) (p\<lparr>unread := 0\<rparr>) \<in> set (renderedItems s')"
      unfolding s'_def renderedItems_renderParticipants [OF x(2) ne]
      using adm by simp
    have e: "itemId (participantItem (activeChat x) (p\<lparr>unread := 0\<rparr>)) = pid"
      using p(2) by (simp add: participantItem_def)
    show "pid \<in> itemId ` set (renderedItems s')"
      by (rule image_eqI [where f = itemId and x = "participantItem (activeChat x) (p\<lparr>unread := 0\<rparr>)",
            OF e [symmetric] m])
  qed
  have ps2: "participants cd' =
      map (\<lambda>p. if pId p = pid then p\<lparr>unread := 0\<rparr> else p) (participants cd)"
    by (simp only: ps ps'_def)
  have run: "selectParticipant sel pid s = (Returned, s')" by (simp only: x(1) s'_def)
  show ?thesis
    apply (rule exI [of _ s'])
    apply (rule exI [of _ cd'])
    apply (intro conjI)
          apply (rule run)
         apply (rule a)
        apply (rule c)
       apply (rule ps2)
      apply (rule z)
     apply (rule items)
    apply (rule shown)
    done
qed

theorem selectParticipant_clears_unread_witness:
  "chatData chatReady = Some (fallbackChatData 0)
   \<and> distinct (map pId (participants (fallbackChatData 0)))
   \<and> ''p1'' \<in> pId ` set (participants (fallbackChatData 0))
   \<and> objectPrototype ''p1'' = None
   \<and> map_option unread (participantOf chatReady ''p1'') = Some 2
   \<and> fst (selectParticipant Some ''p1'' chatReady) = Returned
   \<and> activeChat (snd (selectParticipant Some ''p1'' chatReady)) = Some ''p1''
   \<and> map_option (map unread \<circ> participants) (chatData (snd (selectParticipant Some ''p1'' chatReady)))
        = Some [0, 0, 1, 1, 3]
   \<and> ''p1'' \<in> itemId ` set (renderedItems (snd (selectParticipant Some ''p1'' chatReady)))
   \<and> [itemUnread i. i \<leftarrow> renderedItems (snd (selectParticipant Some ''p1'' chatReady)),
         itemId i = ''p1''] = [None]"
proof -
  have a: "chatData chatReady = Some (fallbackChatData 0)"
    by (simp add: chatReady_def pageLoaded_def)
  have b: "distinct (map pId (participants (fallbackChatData 0)))"
    by (simp add: fallbackChatData_def FallbackData_chatParticipants_def)
  have c: "''p1'' \<in> pId ` set (participants (fallbackChatData 0))"
    by (simp add: fallbackChatData_def FallbackData_chatParticipants_def)
  have d: "map_option unread (participantOf chatReady ''p1'') = Some 2"
    by (simp add: participantOf_def a fallbackChatData_def FallbackData_chatParticipants_def)
  have v: "Some ''p1'' \<noteq> None" by simp
  have o: "objectPrototype ''p1'' = None" by (simp add: objectPrototype_def)
  have pl: "participantsList chatReady \<noteq> None" by (simp add: chatReady_def pageLoaded_def)
  have ad: "\<forall>p \<in> set (participants (fallbackChatData 0)).
      pId p = ''p1'' \<longrightarrow> admits (currentFilter chatReady) p"
    by (simp add: chatReady_def pageLoaded_def admits_def)
  from selectParticipant_clears_unread [where sel = Some and pid = "''p1''", OF a b c v o]
  obtain s' cd' where
    r: "selectParticipant Some ''p1'' chatReady = (Returned, s')" "activeChat s' = Some ''p1''"
      "chatData s' = Some cd'"
      "participants cd' =
         map (\<lambda>p. if pId p = ''p1'' then p\<lparr>unread := 0\<rparr> else p) (participants (fallbackChatData 0))"
      "participantsList chatReady \<noteq> None
          \<and> (\<forall>p \<in> set (participants (fallbackChatData 0)).
                pId p = ''p1'' \<longrightarrow> admits (currentFilter chatReady) p)
          \<longrightarrow> ''p1'' \<in> itemId ` set (renderedItems s')"
    by (elim exE conjE)
  have e: "map unread (participants cd') = [0, 0, 1, 1, 3]"
    unfolding r(4) by (simp add: fallbackChatData_def FallbackData_chatParticipants_def)
  have f: "''p1'' \<in> itemId ` set (renderedItems s')"
    using r(5) pl ad by (rule_tac mp) simp_all
  have s'v: "s' = snd (selectParticipant Some ''p1'' chatReady)" by (simp add: r(1))
  have g: "[itemUnread i. i \<leftarrow> renderedItems (snd (selectParticipant Some ''p1'' chatReady)),
         itemId i = ''p1''] = [None]"
    by (simp add: selectParticipant_def chatReady_def pageLoaded_def fallbackChatData_def
        FallbackData_chatParticipants_def Let_def loadMessages_def getProperty_def
        objectPrototype_def renderParticipants_def renderedItems_def participantItem_def
        byRecency_def clearActiveItems_def markActiveItem_def setText_def setDisplay_def)
  show ?thesis using a b c o d r(1,2,3) e f [unfolded s'v] g by simp
qed

text \<open>
  The claim C5 as stated fails for a participant whose id is the name of a property
  that every object inherits. With the only participant, of two unread messages, under
  the id \<open>constructor\<close>, \<open>selectParticipant\<close> clears the unread count in the data
  and then ends in an exception, raised by \<open>loadMessages\<close> on the inherited function:
  the participant list is not rendered again and still shows the badge.
\<close>

theorem selectParticipant_inherited_name:
  "map itemId (renderedItems inheritedNameChat) = [''constructor'']
   \<and> map itemUnread (renderedItems inheritedNameChat) = [Some 2]
   \<and> fst (selectParticipant Some ''constructor'' inheritedNameChat) = Threw
   \<and> map_option (map unread \<circ> participants)
        (chatData (snd (selectParticipant Some ''constructor'' inheritedNameChat))) = Some [0]
   \<and> map itemUnread (renderedItems (snd (selectParticipant Some ''constructor'' inheritedNameChat)))
        = [Some 2]"
  by (simp add: inheritedNameChat_def selectParticipant_def pageLoaded_def Let_def
      loadMessages_def getProperty_def objectPrototype_def renderParticipants_def
      renderedItems_def participantItem_def clearActiveItems_def markActiveItem_def
      setText_def setDisplay_def)

lemma sendMessage_sent:
  assumes "messageInput s = Some v" and "activeChat s = Some pid" and "pid \<noteq> []"
    and "trim v \<noteq> []" and "chatData s = Some cd" and "messages cd = Some mm"
    and "objectPrototype pid = None"
  shows "\<exists>x. sendMessage tId tMsg tPart s = (Returned, renderParticipants (currentFilter s) x)
     \<and> chatData x =
         Some (cd\<lparr>messages := Some (mm(pid \<mapsto> threadOf cd pid @
                   [\<lparr>msgId = ''m'' @ showInt tId, msgFrom = ''me'', msgText = trim v,
                     msgTime = tMsg, sent = True\<rparr>])),
                 participants :=
                   updateFirst (\<lambda>p. pId p = pid)
                     (\<lambda>p. p\<lparr>lastMessage := trim v, lastMessageTime := tPart\<rparr>) (participants cd)\<rparr>)"
proof (cases "mm pid")
  case None
  with assms show ?thesis
    apply (simp add: sendMessage_def falsy_def Let_def loadMessages_loaded threadOf_def
        getProperty_plain split del: if_split)
    apply (intro exI conjI)
     apply (rule refl)
    apply simp
    done
next
  case (Some t)
  with assms show ?thesis
    apply (simp add: sendMessage_def falsy_def Let_def loadMessages_loaded threadOf_def
        getProperty_plain split del: if_split)
    apply (intro exI conjI)
     apply (rule refl)
    apply simp
    done
qed

lemma sendMessage_idle:
  assumes "falsy (activeChat s) \<or> messageInput s = None \<or> (\<exists>v. messageInput s = Some v \<and> trim v = [])"
  shows "sendMessage tId tMsg tPart s = (Returned, s)"
proof (cases "messageInput s")
  case None
  then show ?thesis by (simp add: sendMessage_def)
next
  case (Some v)
  with assms have "falsy (activeChat s) \<or> trim v = []" by simp
  with Some show ?thesis by (auto simp add: sendMessage_def falsy_def Let_def)
qed

text \<open>
  C4 (as amended). Let a non-empty id be active that is not the name of a property
  inherited from \<open>Object.prototype\<close>, the composer hold a text whose trimmed form is
  not empty, and the chat data be loaded with its message map and unique participant
  ids. Then \<open>sendMessage\<close> returns normally, appends exactly one message to the thread
  of the active id (from \<open>me\<close>, with the trimmed text and the clock reading \<open>tMsg\<close>
  taken for the message), leaves every other thread as it was, and sets the
  \<open>lastMessage\<close> of the participant with that id to the trimmed text and its
  \<open>lastMessageTime\<close> to \<open>tPart\<close>, the clock reading taken afterwards for the
  participant. When no chat is active, the composer is missing or the trimmed text is
  empty, the call changes nothing.
\<close>

theorem sendMessage_appends_one:
  "(messageInput s = Some v \<and> activeChat s = Some pid \<and> pid \<noteq> [] \<and> trim v \<noteq> []
      \<and> objectPrototype pid = None
      \<and> chatData s = Some cd \<and> messages cd = Some mm \<and> distinct (map pId (participants cd))
    \<longrightarrow> fst (sendMessage tId tMsg tPart s) = Returned
      \<and> threadIn (snd (sendMessage tId tMsg tPart s)) pid =
           threadIn s pid @ [\<lparr>msgId = ''m'' @ showInt tId, msgFrom = ''me'', msgText = trim v,
                               msgTime = tMsg, sent = True\<rparr>]
      \<and> (\<forall>q. q \<noteq> pid \<longrightarrow> threadIn (snd (sendMessage tId tMsg tPart s)) q = threadIn s q)
      \<and> map_option participants (chatData (snd (sendMessage tId tMsg tPart s))) =
           Some (map (\<lambda>p. if pId p = pid
                           then p\<lparr>lastMessage := trim v, lastMessageTime := tPart\<rparr> else p)
                   (participants cd)))
   \<and> (falsy (activeChat s) \<or> messageInput s = None
        \<or> (\<exists>v. messageInput s = Some v \<and> trim v = [])
      \<longrightarrow> sendMessage tId tMsg tPart s = (Returned, s))"
proof (intro conjI impI)
  assume h: "messageInput s = Some v \<and> activeChat s = Some pid \<and> pid \<noteq> [] \<and> trim v \<noteq> []
      \<and> objectPrototype pid = None
      \<and> chatData s = Some cd \<and> messages cd = Some mm \<and> distinct (map pId (participants cd))"
  then have hs: "messageInput s = Some v" "activeChat s = Some pid" "pid \<noteq> []" "trim v \<noteq> []"
    "chatData s = Some cd" "messages cd = Some mm" "objectPrototype pid = None"
    "distinct (map pId (participants cd))"
    by simp_all
  from sendMessage_sent [OF hs(1-7), of tId tMsg tPart] obtain x where
    x: "sendMessage tId tMsg tPart s = (Returned, renderParticipants (currentFilter s) x)"
      "chatData x =
         Some (cd\<lparr>messages := Some (mm(pid \<mapsto> threadOf cd pid @
                   [\<lparr>msgId = ''m'' @ showInt tId, msgFrom = ''me'', msgText = trim v,
                     msgTime = tMsg, sent = True\<rparr>])),
                 participants :=
                   updateFirst (\<lambda>p. pId p = pid)
                     (\<lambda>p. p\<lparr>lastMessage := trim v, lastMessageTime := tPart\<rparr>) (participants cd)\<rparr>)"
    by (elim exE conjE)
  show "fst (sendMessage tId tMsg tPart s) = Returned" by (simp add: x(1))
  show "threadIn (snd (sendMessage tId tMsg tPart s)) pid =
           threadIn s pid @ [\<lparr>msgId = ''m'' @ showInt tId, msgFrom = ''me'', msgText = trim v,
                               msgTime = tMsg, sent = True\<rparr>]"
    by (simp add: x threadIn_def hs(5) threadOf_def hs(6))
  show "\<forall>q. q \<noteq> pid \<longrightarrow> threadIn (snd (sendMessage tId tMsg tPart s)) q = threadIn s q"
    by (simp add: x threadIn_def hs(5) threadOf_def hs(6))
  show "map_option participants (chatData (snd (sendMessage tId tMsg tPart s))) =
           Some (map (\<lambda>p. if pId p = pid
                           then p\<lparr>lastMessage := trim v, lastMessageTime := tPart\<rparr> else p)
                   (participants cd))"
    by (simp add: x updateFirst_distinct [OF hs(8)])
next
  assume "falsy (activeChat s) \<or> messageInput s = None
        \<or> (\<exists>v. messageInput s = Some v \<and> trim v = [])"
  then show "sendMessage tId tMsg tPart s = (Returned, s)" by (rule sendMessage_idle)
qed

lemma trim_example: "trim ''  See you at 9  '' = ''See you at 9''"
  by (simp add: trim_def isWhiteSpace_def)

lemma sendReady_fields:
  "messageInput sendReady = Some ''  See you at 9  ''"
  "activeChat sendReady = Some ''p1''"
  "chatData sendReady = Some (fallbackChatData 0)"
  "messages (fallbackChatData 0) = Some Map.empty"
  "distinct (map pId (participants (fallbackChatData 0)))"
  by (simp_all add: sendReady_def chatReady_def pageLoaded_def fallbackChatData_def
      FallbackData_chatParticipants_def)

theorem sendMessage_appends_one_witness:
  "messageInput sendReady = Some ''  See you at 9  ''
   \<and> activeChat sendReady = Some ''p1''
   \<and> trim ''  See you at 9  '' = ''See you at 9''
   \<and> objectPrototype ''p1'' = None
   \<and> threadIn sendReady ''p1'' = []
   \<and> fst (sendMessage 5 5 5 sendReady) = Returned
   \<and> threadIn (snd (sendMessage 5 5 5 sendReady)) ''p1'' =
        [\<lparr>msgId = ''m5'', msgFrom = ''me'', msgText = ''See you at 9'', msgTime = 5, sent = True\<rparr>]
   \<and> threadIn (snd (sendMessage 5 5 5 sendReady)) ''p2'' = threadIn sendReady ''p2''
   \<and> falsy (activeChat chatReady)
   \<and> sendMessage 5 5 5 chatReady = (Returned, chatReady)"
proof -
  note t = sendMessage_appends_one [of sendReady "''  See you at 9  ''" "''p1''"
      "fallbackChatData 0" Map.empty 5 5 5]
  have o: "objectPrototype ''p1'' = None" by (simp add: objectPrototype_def)
  have h: "messageInput sendReady = Some ''  See you at 9  '' \<and> activeChat sendReady = Some ''p1''
      \<and> ''p1'' \<noteq> [] \<and> trim ''  See you at 9  '' \<noteq> []
      \<and> objectPrototype ''p1'' = None
      \<and> chatData sendReady = Some (fallbackChatData 0)
      \<and> messages (fallbackChatData 0) = Some Map.empty
      \<and> distinct (map pId (participants (fallbackChatData 0)))"
    by (simp add: sendReady_fields trim_example o)
  have e: "threadIn sendReady ''p1'' = []"
    by (simp add: threadIn_def threadOf_def sendReady_fields)
  have m: "showInt 5 = ''5''"
    by code_simp
  from t [THEN conjunct1, THEN mp, OF h] have
    r: "fst (sendMessage 5 5 5 sendReady) = Returned"
      "threadIn (snd (sendMessage 5 5 5 sendReady)) ''p1'' =
        [\<lparr>msgId = ''m5'', msgFrom = ''me'', msgText = ''See you at 9'', msgTime = 5, sent = True\<rparr>]"
      "threadIn (snd (sendMessage 5 5 5 sendReady)) ''p2'' = threadIn sendReady ''p2''"
    by (simp_all add: e m trim_example)
  have f: "falsy (activeChat chatReady)"
    by (simp add: falsy_def chatReady_def pageLoaded_def)
  have i: "sendMessage 5 5 5 chatReady = (Returned, chatReady)"
    using sendMessage_appends_one [of chatReady _ _ _ _ 5 5 5, THEN conjunct2, THEN mp] f
    by blast
  show ?thesis using sendReady_fields(1,2) trim_example o e r f i by simp
qed

text \<open>
  The claim C4 as stated fails: the time of the appended message and the time recorded
  with the participant come from two readings of the clock, and differ when the clock
  has advanced between them.
\<close>

theorem sendMessage_two_clock_readings:
  "map msgTime (threadIn (snd (sendMessage 7 1000 1001 sendReady)) ''p1'') = [1000]
   \<and> map_option lastMessageTime (participantOf (snd (sendMessage 7 1000 1001 sendReady)) ''p1'') =
       Some 1001"
proof -
  have ne: "''p1'' \<noteq> []" "trim ''  See you at 9  '' \<noteq> []"
    by (simp_all add: trim_example)
  have o: "objectPrototype ''p1'' = None" by (simp add: objectPrototype_def)
  from sendMessage_sent [OF sendReady_fields(1,2) ne sendReady_fields(3,4) o, of 7 1000 1001]
  obtain x where
    x: "sendMessage 7 1000 1001 sendReady = (Returned, renderParticipants (currentFilter sendReady) x)"
      "chatData x =
         Some ((fallbackChatData 0)\<lparr>messages := Some (Map.empty(''p1'' \<mapsto> threadOf (fallbackChatData 0) ''p1'' @
                   [\<lparr>msgId = ''m'' @ showInt 7, msgFrom = ''me'', msgText = trim ''  See you at 9  '',
                     msgTime = 1000, sent = True\<rparr>])),
                 participants :=
                   updateFirst (\<lambda>p. pId p = ''p1'')
                     (\<lambda>p. p\<lparr>lastMessage := trim ''  See you at 9  '', lastMessageTime := 1001\<rparr>)
                     (participants (fallbackChatData 0))\<rparr>)"
    by (elim exE conjE)
  show ?thesis
    by (simp add: x threadIn_def threadOf_def participantOf_def fallbackChatData_def
        FallbackData_chatParticipants_def)
qed

section \<open>Properties of the login form\<close>

text \<open>
  C8. When the login form is submitted with a password of fewer than 8 characters, the
  password error element shows "Password must be at least 8 characters" and no login
  request is sent.
\<close>

theorem handleLogin_short_password:
  assumes "loginPassword pg = Some pw" and "length pw < 8" and "passwordError pg = Some el"
  shows "fst (handleLogin pg) = Returned
     \<and> map_option errText (passwordError (snd (handleLogin pg))) =
          Some ''Password must be at least 8 characters''
     \<and> loginRequests (snd (handleLogin pg)) = loginRequests pg"
  using assms
  by (simp add: handleLogin_def Let_def validatePassword_def clearAllErrors_def showError_def
      writeError_def wipeError_def)

theorem handleLogin_short_password_witness:
  "loginPassword (loginForm ''dokter'' ''short'' ''doctor'') = Some ''short''
   \<and> length ''short'' < 8
   \<and> map_option errText (passwordError (snd (handleLogin (loginForm ''dokter'' ''short'' ''doctor'')))) =
          Some ''Password must be at least 8 characters''
   \<and> loginRequests (snd (handleLogin (loginForm ''dokter'' ''short'' ''doctor''))) = []"
  using handleLogin_short_password [of "loginForm ''dokter'' ''short'' ''doctor''" "''short''"]
  by (simp add: loginForm_def)

section \<open>Properties of the month grid\<close>

lemma div_step:
  fixes a k :: int
  assumes k: "0 < k"
  shows "(a + 1) div k = a div k + (if (a + 1) mod k = 0 then 1 else 0)"
proof -
  have e: "a = k * (a div k) + a mod k" by simp
  show ?thesis
  proof (cases "a mod k = k - 1")
    case True
    have d: "k * (a div k + 1) = k * (a div k) + k" by (simp add: algebra_simps)
    have eq: "a + 1 = k * (a div k + 1) + 0" using e True d by linarith
    have "(a + 1) div k = a div k + 1"
      using int_div_pos_eq [OF eq _ k] by simp
    moreover have "(a + 1) mod k = 0"
      using int_mod_pos_eq [OF eq _ k] by simp
    ultimately show ?thesis by simp
  next
    case False
    have lt: "a mod k + 1 < k" using False pos_mod_bound [OF k, of a] by linarith
    have ge: "0 \<le> a mod k + 1" using pos_mod_sign [OF k, of a] by linarith
    have eq: "a + 1 = k * (a div k) + (a mod k + 1)" using e by linarith
    have "(a + 1) div k = a div k"
      using int_div_pos_eq [OF eq ge lt] .
    moreover have "(a + 1) mod k = a mod k + 1"
      using int_mod_pos_eq [OF eq ge lt] .
    ultimately show ?thesis using pos_mod_sign [OF k, of a] by simp
  qed
qed

lemma mod_shift4: "(y - 1968) mod 4 = y mod 4" for y :: int
proof -
  have "y - 1968 = y + 4 * (- 492)" by simp
  then show ?thesis by (metis mod_mult_self2)
qed

lemma mod_shift100: "(y - 1900) mod 100 = y mod 100" for y :: int
proof -
  have "y - 1900 = y + 100 * (- 19)" by simp
  then show ?thesis by (metis mod_mult_self2)
qed

lemma mod_shift400: "(y - 1600) mod 400 = y mod 400" for y :: int
proof -
  have "y - 1600 = y + 400 * (- 4)" by simp
  then show ?thesis by (metis mod_mult_self2)
qed

lemma year_step_arith:
  fixes A B C A' B' C' y p q r :: int
  assumes "A' = A + p" "B' = B + q" "C' = C + r"
  shows "365 * (y - 1969) + A' - B' + C' = 365 * (y - 1970) + A - B + C + (365 + p - q + r)"
  using assms by (simp add: algebra_simps)

lemma dayFromYear_Suc: "dayFromYear (y + 1) = dayFromYear y + (if inLeapYear y then 366 else 365)"
proof -
  have a: "(y - 1968) div 4 = (y - 1969) div 4 + (if y mod 4 = 0 then 1 else 0)"
    using div_step [of 4 "y - 1969"] mod_shift4 [of y] by simp
  have b: "(y - 1900) div 100 = (y - 1901) div 100 + (if y mod 100 = 0 then 1 else 0)"
    using div_step [of 100 "y - 1901"] mod_shift100 [of y] by simp
  have c: "(y - 1600) div 400 = (y - 1601) div 400 + (if y mod 400 = 0 then 1 else 0)"
    using div_step [of 400 "y - 1601"] mod_shift400 [of y] by simp
  have d: "dayFromYear (y + 1) =
      365 * (y - 1969) + (y - 1968) div 4 - (y - 1900) div 100 + (y - 1600) div 400"
    by (simp add: dayFromYear_def)
  have m1: "y mod 400 = 0 \<Longrightarrow> y mod 100 = 0"
    by (rule mod_mod_cancel [of 100 400 y, THEN subst]) simp_all
  have m2: "y mod 100 = 0 \<Longrightarrow> y mod 4 = 0"
    by (rule mod_mod_cancel [of 4 100 y, THEN subst]) simp_all
  have e: "dayFromYear (y + 1) = dayFromYear y +
      (365 + (if y mod 4 = 0 then 1 else 0) - (if y mod 100 = 0 then 1 else 0)
           + (if y mod 400 = 0 then 1 else 0))"
    using year_step_arith [OF a b c, of y] d by (simp only: dayFromYear_def [of y])
  have f: "(365 + (if y mod 4 = 0 then 1 else 0) - (if y mod 100 = 0 then 1 else 0)
           + (if y mod 400 = 0 then 1 else 0)) = (if inLeapYear y then 366 else 365 :: int)"
    using m1 m2 unfolding inLeapYear_def by (cases "y mod 4 = 0"; cases "y mod 100 = 0"; cases "y mod 400 = 0") simp_all
  show ?thesis unfolding e f ..
qed


lemma map_add_upto: "map (\<lambda>i. i + k) [a..b] = [a + k..b + k]"
proof (induction "nat (b + 1 - a)" arbitrary: a)
  case 0
  then have "b < a" by simp
  then show ?case by simp
next
  case (Suc n)
  then have le: "a \<le> b" by simp
  have n: "n = nat (b + 1 - (a + 1))" using Suc(2) by simp
  have l: "[a..b] = a # [a + 1..b]" using le by (rule upto_rec1)
  have r: "[a + k..b + k] = (a + k) # [a + k + 1..b + k]"
    using le by (intro upto_rec1) simp
  have c: "a + k + 1 = a + 1 + k" by simp
  show ?case unfolding l r c using Suc(1) [OF n] by simp
qed

lemma dayFromYear_mono:
  assumes "y \<le> z"
  shows "dayFromYear y \<le> dayFromYear z"
  using assms
proof (induct z rule: int_ge_induct)
  case base
  show ?case by simp
next
  case (step i)
  have "dayFromYear i \<le> dayFromYear (i + 1)"
    unfolding dayFromYear_Suc by simp
  with step(2) show ?case by simp
qed

lemma dayFromYear_first: "dayFromYear (- 271821) = - 100000109"
  by (simp add: dayFromYear_def)

lemma dayFromYear_second: "dayFromYear (- 271820) = - 99999744"
  by (simp add: dayFromYear_def)

lemma dayFromYear_last: "dayFromYear 275759 = 99999379"
  by (simp add: dayFromYear_def)

lemma monthStart_bounds: "0 \<le> monthStart y m \<and> monthStart y m \<le> 335"
  by (simp add: monthStart_def Let_def)

lemma monthStart_december_low: "334 \<le> monthStart y 11"
  by (simp add: monthStart_def Let_def)

lemma dayNumber_bounds:
  assumes "- 271821 \<le> y" and "y \<le> 275759" and "1 \<le> d" and "d \<le> 31"
    and "y = - 271821 \<longrightarrow> m = 11"
  shows "- 99999998 \<le> dayNumber y m d \<and> dayNumber y m d \<le> 99999998"
proof -
  have up: "dayFromYear y \<le> 99999379"
    using dayFromYear_mono [OF assms(2)] by (simp only: dayFromYear_last)
  have ms: "0 \<le> monthStart y m" "monthStart y m \<le> 335"
    using monthStart_bounds [of y m] by simp_all
  have low: "- 99999998 \<le> dayFromYear y + monthStart y m"
  proof (cases "y = - 271821")
    case True
    with assms(5) have m: "m = 11" by simp
    show ?thesis unfolding True m dayFromYear_first
      using monthStart_december_low [of "- 271821"] by simp
  next
    case False
    with assms(1) have "- 271820 \<le> y" by simp
    from dayFromYear_mono [OF this] have "- 99999744 \<le> dayFromYear y"
      by (simp only: dayFromYear_second)
    with ms(1) show ?thesis by simp
  qed
  show ?thesis unfolding dayNumber_def using up ms low assms(3,4) by simp
qed

lemma validTime_midnight:
  assumes "- 99999998 \<le> D \<and> D \<le> 99999998" and "- 1440 \<le> tz" and "tz \<le> 1440"
  shows "validTime (D * msPerDay + 0 - tz * 60000)"
  using assms unfolding validTime_def msPerDay_def by simp

lemma validTime_date:
  assumes "- 271821 \<le> y" and "y \<le> 275759" and "1 \<le> d" and "d \<le> 31"
    and "y = - 271821 \<longrightarrow> m = 11" and "- 1440 \<le> tz" and "tz \<le> 1440"
  shows "validTime (getTime tz \<lparr>getFullYear = y, getMonth = m, getDate = d, getMsOfDay = 0\<rparr>)"
  using validTime_midnight [OF dayNumber_bounds [OF assms(1-5)] assms(6,7)]
  by (simp add: getTime_def)

lemma calendarLoop_from:
  assumes sg: "startingDayOfWeek g = Some st" and dg: "daysInMonth g = Some dm"
    and pg: "prevMonthLastDay g = Some p"
    and st: "0 \<le> st" and dm: "0 \<le> dm"
  shows "0 \<le> i \<Longrightarrow> i \<le> 42
    \<Longrightarrow> dc = 1 + min (max 0 (i - st)) dm
    \<Longrightarrow> nc = 1 + max 0 (i - st - dm)
    \<Longrightarrow> calendarLoop evs fs tdy g i dc nc body = body @ map (cellAt evs fs tdy g st dm p) [i..41]"
proof (induction "nat (42 - i)" arbitrary: i dc nc body)
  case 0
  then have i: "i = 42" by simp
  show ?case unfolding i by (subst calendarLoop.simps) (simp add: totalCells_def)
next
  case (Suc n)
  then have lt: "i < 42" by simp
  have n: "n = nat (42 - (i + 1))" using Suc(2) by simp
  have i1: "0 \<le> i + 1" "i + 1 \<le> 42" using Suc.prems(1) lt by simp_all
  have up: "[i..41] = i # [i + 1..41]" using lt by (intro upto_rec1) simp
  show ?case
  proof (cases "i < st")
    case True
    have dc': "dc = 1 + min (max 0 (i + 1 - st)) dm"
      using Suc.prems(3) True dm by simp
    have nc': "nc = 1 + max 0 (i + 1 - st - dm)"
      using Suc.prems(4) True dm by simp
    have step: "calendarLoop evs fs tdy g i dc nc body =
        calendarLoop evs fs tdy g (i + 1) dc nc
          (body @ [otherMonthCell (Some (p - st + i + 1))])"
      using lt True
      by (subst calendarLoop.simps) (simp add: totalCells_def below_def leadingDay_def sg pg)
    show ?thesis
      unfolding step Suc(1) [OF n i1 dc' nc'] up using True by (simp add: cellAt_def)
  next
    case False
    then have ge: "st \<le> i" by simp
    show ?thesis
    proof (cases "i - st < dm")
      case True
      have dcv: "dc = i - st + 1" using Suc.prems(3) ge True by simp
      have dc': "dc + 1 = 1 + min (max 0 (i + 1 - st)) dm"
        using dcv ge True by simp
      have nc': "nc = 1 + max 0 (i + 1 - st - dm)"
        using Suc.prems(4) True by simp
      have step: "calendarLoop evs fs tdy g i dc nc body =
          calendarLoop evs fs tdy g (i + 1) (dc + 1) nc (body @ [dayCell evs fs tdy g dc])"
        using lt False True dcv
        by (subst calendarLoop.simps) (simp add: totalCells_def below_def upTo_def sg dg)
      show ?thesis
        unfolding step Suc(1) [OF n i1 dc' nc'] up using False True dcv by (simp add: cellAt_def)
    next
      case nd: False
      have dcv: "dc = dm + 1" using Suc.prems(3) ge nd by simp
      have ncv: "nc = i - st - dm + 1" using Suc.prems(4) nd by simp
      have dc': "dc = 1 + min (max 0 (i + 1 - st)) dm"
        using dcv ge nd by simp
      have nc': "nc + 1 = 1 + max 0 (i + 1 - st - dm)"
        using ncv nd by simp
      have step: "calendarLoop evs fs tdy g i dc nc body =
          calendarLoop evs fs tdy g (i + 1) dc (nc + 1) (body @ [otherMonthCell (Some nc)])"
        using lt False dcv
        by (subst calendarLoop.simps) (simp add: totalCells_def below_def upTo_def sg dg)
      show ?thesis
        unfolding step Suc(1) [OF n i1 dc' nc'] up using False nd ncv by (simp add: cellAt_def)
    qed
  qed
qed

lemma calendarLoop_cells:
  assumes "startingDayOfWeek g = Some st" and "daysInMonth g = Some dm"
    and "prevMonthLastDay g = Some p" and "0 \<le> st" and "0 \<le> dm"
  shows "calendarLoop evs fs tdy g 0 1 1 [] = map (cellAt evs fs tdy g st dm p) [0..41]"
  using calendarLoop_from [OF assms, of 0 1 1 evs fs tdy "[]"] assms(4,5) by simp

lemma month_cases:
  fixes m :: int
  assumes "0 \<le> m" and "m < 12"
  shows "m = 0 \<or> m = 1 \<or> m = 2 \<or> m = 3 \<or> m = 4 \<or> m = 5 \<or> m = 6 \<or> m = 7 \<or> m = 8
     \<or> m = 9 \<or> m = 10 \<or> m = 11"
  using assms by presburger

lemma prevMonthOf_range:
  assumes "0 \<le> m" and "m < 12" and "prevMonthOf y m = (py, pm)"
  shows "0 \<le> pm \<and> pm < 12 \<and> nextMonthOf py pm = (y, m)"
  using assms by (auto simp: prevMonthOf_def nextMonthOf_def split: if_splits)

lemma dayNumber_day: "dayNumber y m d = dayNumber y m 1 + d - 1"
  by (simp add: dayNumber_def)

lemma mondayIndex_range: "0 \<le> mondayIndex y m d \<and> mondayIndex y m d \<le> 6"
proof -
  have "0 \<le> mondayIndex y m d \<and> mondayIndex y m d < 7" by (simp add: mondayIndex_def)
  then show ?thesis by simp
qed

lemma monthStart_next:
  assumes "m = 0 \<or> m = 1 \<or> m = 2 \<or> m = 3 \<or> m = 4 \<or> m = 5 \<or> m = 6 \<or> m = 7 \<or> m = 8
     \<or> m = 9 \<or> m = 10"
  shows "monthStart y (m + 1) = monthStart y m + daysInMonthOf y m"
  using assms by (elim disjE) (simp_all add: monthStart_def daysInMonthOf_def)

lemma monthStart_december: "monthStart y 11 + daysInMonthOf y 11 = (if inLeapYear y then 366 else 365)"
  by (simp add: monthStart_def daysInMonthOf_def)

lemma monthStart_january: "monthStart y 0 = 0"
  by (simp add: monthStart_def)

lemma dayNumber_next_month:
  assumes "0 \<le> m" and "m < 12" and "nextMonthOf y m = (ny, nm)"
  shows "dayNumber ny nm 1 = dayNumber y m 1 + daysInMonthOf y m"
proof (cases "m = 11")
  case True
  with assms(3) have n: "ny = y + 1" "nm = 0" by (simp_all add: nextMonthOf_def)
  have "dayFromYear (y + 1) + monthStart (y + 1) 0 =
      dayFromYear y + (monthStart y 11 + daysInMonthOf y 11)"
    unfolding dayFromYear_Suc monthStart_january monthStart_december by simp
  then show ?thesis unfolding n True dayNumber_def by simp
next
  case False
  with assms(3) have n: "ny = y" "nm = m + 1" by (simp_all add: nextMonthOf_def)
  from month_cases [OF assms(1,2)] False
  have "m = 0 \<or> m = 1 \<or> m = 2 \<or> m = 3 \<or> m = 4 \<or> m = 5 \<or> m = 6 \<or> m = 7 \<or> m = 8
     \<or> m = 9 \<or> m = 10" by simp
  then have "monthStart y (m + 1) = monthStart y m + daysInMonthOf y m"
    by (rule monthStart_next)
  then show ?thesis unfolding n dayNumber_def by simp
qed

lemma dayNumber_prev_month:
  assumes "0 \<le> m" and "m < 12" and "prevMonthOf y m = (py, pm)"
  shows "dayNumber y m 1 = dayNumber py pm 1 + daysInMonthOf py pm"
  using prevMonthOf_range [OF assms] dayNumber_next_month [of pm py y m] by simp

lemma mod7_shift:
  fixes D d :: int
  shows "((D + k) + 4 + 6) mod 7 = ((D + 4 + 6) mod 7 + k) mod 7"
proof -
  have "((D + 4 + 6) mod 7 + k) mod 7 = ((D + 4 + 6) + k) mod 7" by (rule mod_add_left_eq)
  also have "(D + 4 + 6) + k = (D + k) + 4 + 6" by simp
  finally show ?thesis by simp
qed

lemma mondayIndex_alt: "mondayIndex y m d = (dayNumber y m d + 4 + 6) mod 7"
  unfolding mondayIndex_def weekDay_def by (simp add: mod_add_left_eq)

lemma mondayIndex_shift:
  "mondayIndex y m d = (mondayIndex y m 1 + (d - 1)) mod 7"
proof -
  have "dayNumber y m d = dayNumber y m 1 + (d - 1)" by (simp add: dayNumber_def)
  then show ?thesis unfolding mondayIndex_alt by (simp only: mod7_shift)
qed

lemma mondayIndex_from:
  assumes "dayNumber y' m' d' = dayNumber y m 1 + k"
  shows "mondayIndex y' m' d' = (mondayIndex y m 1 + k) mod 7"
  unfolding mondayIndex_alt assms by (simp only: mod7_shift)

lemma daysInMonthOf_bounds: "28 \<le> daysInMonthOf y m \<and> daysInMonthOf y m \<le> 31"
  by (simp add: daysInMonthOf_def)

lemma carryDay_in_range:
  "1 \<le> d \<Longrightarrow> d \<le> daysInMonthOf y m \<Longrightarrow>
   carryDay y m d = \<lparr>getFullYear = y, getMonth = m, getDate = d, getMsOfDay = 0\<rparr>"
  by (subst carryDay.simps) simp

lemma carryDay_zero:
  assumes "prevMonthOf y m = (py, pm)"
  shows "carryDay y m 0 =
     \<lparr>getFullYear = py, getMonth = pm, getDate = daysInMonthOf py pm, getMsOfDay = 0\<rparr>"
proof -
  have b: "1 \<le> daysInMonthOf py pm" using daysInMonthOf_bounds [of py pm] by linarith
  have "carryDay y m 0 = carryDay py pm (daysInMonthOf py pm)"
    by (subst carryDay.simps) (simp add: assms)
  then show ?thesis using carryDay_in_range [OF b order_refl] by simp
qed

lemma month_div_mod:
  fixes m :: int
  assumes "0 \<le> m" and "m < 12"
  shows "m div 12 = 0" and "m mod 12 = m"
  using assms by simp_all

lemma newDate_first:
  assumes "y < 0 \<or> 99 < y" and "0 \<le> m" and "m < 12"
    and "- 271820 \<le> y" and "y \<le> 275759" and "- 1440 \<le> tz" and "tz \<le> 1440"
  shows "newDate tz y m 1 = Some \<lparr>getFullYear = y, getMonth = m, getDate = 1, getMsOfDay = 0\<rparr>"
proof -
  have b: "(1::int) \<le> daysInMonthOf y m" using daysInMonthOf_bounds [of y m] by linarith
  have c: "carryDay y m 1 = \<lparr>getFullYear = y, getMonth = m, getDate = 1, getMsOfDay = 0\<rparr>"
    using carryDay_in_range [OF order_refl b] .
  have v: "validTime (getTime tz \<lparr>getFullYear = y, getMonth = m, getDate = 1, getMsOfDay = 0\<rparr>)"
    using assms(4-7) by (intro validTime_date) simp_all
  have mk: "makeFullYear y = y" using assms(1) by (auto simp add: makeFullYear_def)
  show ?thesis
    unfolding newDate_def Let_def mk month_div_mod [OF assms(2,3)] using c v by simp
qed

lemma newDate_zero:
  assumes "y < 0 \<or> 99 < y" and "0 \<le> m" and "m < 12" and "prevMonthOf y m = (py, pm)"
    and "- 271820 \<le> y" and "y \<le> 275759" and "- 1440 \<le> tz" and "tz \<le> 1440"
  shows "newDate tz y m 0 =
     Some \<lparr>getFullYear = py, getMonth = pm, getDate = daysInMonthOf py pm, getMsOfDay = 0\<rparr>"
proof -
  have c: "carryDay y m 0 =
      \<lparr>getFullYear = py, getMonth = pm, getDate = daysInMonthOf py pm, getMsOfDay = 0\<rparr>"
    using carryDay_zero [OF assms(4)] .
  have r: "- 271821 \<le> py" "py \<le> 275759" "py = - 271821 \<longrightarrow> pm = 11"
    using assms(4,5,6) by (auto simp add: prevMonthOf_def split: if_splits)
  have d: "1 \<le> daysInMonthOf py pm" "daysInMonthOf py pm \<le> 31"
    using daysInMonthOf_bounds [of py pm] by simp_all
  have v: "validTime (getTime tz
      \<lparr>getFullYear = py, getMonth = pm, getDate = daysInMonthOf py pm, getMsOfDay = 0\<rparr>)"
    using r d assms(7,8) by (intro validTime_date) simp_all
  have mk: "makeFullYear y = y" using assms(1) by (auto simp add: makeFullYear_def)
  show ?thesis
    unfolding newDate_def Let_def mk month_div_mod [OF assms(2,3)] using c v by simp
qed

lemma newDate_last:
  assumes "y < 0 \<or> 99 < y" and "0 \<le> m" and "m < 12"
    and "- 271820 \<le> y" and "y \<le> 275759" and "- 1440 \<le> tz" and "tz \<le> 1440"
  shows "newDate tz y (m + 1) 0 =
     Some \<lparr>getFullYear = y, getMonth = m, getDate = daysInMonthOf y m, getMsOfDay = 0\<rparr>"
proof -
  have d: "1 \<le> daysInMonthOf y m" "daysInMonthOf y m \<le> 31"
    using daysInMonthOf_bounds [of y m] by simp_all
  have v: "validTime (getTime tz
      \<lparr>getFullYear = y, getMonth = m, getDate = daysInMonthOf y m, getMsOfDay = 0\<rparr>)"
    using d assms(4-7) by (intro validTime_date) simp_all
  have mk: "makeFullYear y = y" using assms(1) by (auto simp add: makeFullYear_def)
  have c: "carryDay (y + (m + 1) div 12) ((m + 1) mod 12) 0 =
      \<lparr>getFullYear = y, getMonth = m, getDate = daysInMonthOf y m, getMsOfDay = 0\<rparr>"
  proof (cases "m = 11")
    case True
    have "prevMonthOf (y + 1) 0 = (y, 11)" by (simp add: prevMonthOf_def)
    then show ?thesis using carryDay_zero [of "y + 1" 0 y 11] True by simp
  next
    case False
    then have r: "0 \<le> m + 1" "m + 1 < 12" using assms by simp_all
    have "prevMonthOf y (m + 1) = (y, m)"
      using assms(2) by (simp add: prevMonthOf_def)
    then show ?thesis
      unfolding month_div_mod [OF r] using carryDay_zero [of y "m + 1" y m] by simp
  qed
  show ?thesis unfolding newDate_def Let_def mk using c v by simp
qed

lemma startingDay_monday:
  "(if weekDay x = 0 then 6 else weekDay x - 1) = (weekDay x + 6) mod 7"
proof -
  have "0 \<le> weekDay x \<and> weekDay x < 7" by (simp add: weekDay_def)
  then show ?thesis by presburger
qed

lemma mondayFirst_value:
  "mondayFirst (Some \<lparr>getFullYear = y, getMonth = m, getDate = d, getMsOfDay = t\<rparr>) =
     Some (mondayIndex y m d)"
  unfolding mondayFirst_def mondayIndex_def getDay_def option.map jsdate.simps
  by (simp only: startingDay_monday)

lemma calendarGrid_value:
  assumes "getFullYear cur = y" and "getMonth cur = m"
    and "y < 0 \<or> 99 < y" and "0 \<le> m" and "m < 12" and "prevMonthOf y m = (py, pm)"
    and "- 271820 \<le> y" and "y \<le> 275759" and "- 1440 \<le> tz" and "tz \<le> 1440"
  shows "calendarGrid tz cur =
     \<lparr>year = y, month = m, daysInMonth = Some (daysInMonthOf y m),
      startingDayOfWeek = Some (mondayIndex y m 1),
      prevMonthLastDay = Some (daysInMonthOf py pm)\<rparr>"
  unfolding calendarGrid_def Let_def assms(1,2)
    newDate_first [OF assms(3-5,7-10)] newDate_last [OF assms(3-5,7-10)]
    newDate_zero [OF assms(3-10)] mondayFirst_value
  by simp

lemma leading_cells:
  "map (cellAt evs fs tdy g st dm p) [0..st - 1] =
     map (\<lambda>d. otherMonthCell (Some d)) [p - st + 1..p]"
proof -
  have e: "0 + (p - st + 1) = p - st + 1" "st - 1 + (p - st + 1) = p"
    by simp_all
  have "map (cellAt evs fs tdy g st dm p) [0..st - 1] =
      map (\<lambda>i. otherMonthCell (Some (i + (p - st + 1)))) [0..st - 1]"
    by (rule map_cong [OF refl]) (simp add: cellAt_def algebra_simps)
  also have "\<dots> = map (\<lambda>d. otherMonthCell (Some d)) (map (\<lambda>i. i + (p - st + 1)) [0..st - 1])"
    by (simp add: comp_def)
  also have "\<dots> = map (\<lambda>d. otherMonthCell (Some d)) [0 + (p - st + 1)..st - 1 + (p - st + 1)]"
    by (simp only: map_add_upto)
  finally show ?thesis by (simp only: e)
qed

lemma current_cells:
  "map (cellAt evs fs tdy g st dm p) [st..st + dm - 1] = map (dayCell evs fs tdy g) [1..dm]"
proof -
  have e: "st + (1 - st) = 1" "st + dm - 1 + (1 - st) = dm"
    by simp_all
  have "map (cellAt evs fs tdy g st dm p) [st..st + dm - 1] =
      map (\<lambda>i. dayCell evs fs tdy g (i + (1 - st))) [st..st + dm - 1]"
    by (rule map_cong [OF refl]) (simp add: cellAt_def algebra_simps)
  also have "\<dots> = map (dayCell evs fs tdy g) (map (\<lambda>i. i + (1 - st)) [st..st + dm - 1])"
    by (simp add: comp_def)
  also have "\<dots> = map (dayCell evs fs tdy g) [st + (1 - st)..st + dm - 1 + (1 - st)]"
    by (simp only: map_add_upto)
  finally show ?thesis by (simp only: e)
qed

lemma trailing_cells:
  assumes "0 \<le> dm"
  shows "map (cellAt evs fs tdy g st dm p) [st + dm..41] =
     map (\<lambda>d. otherMonthCell (Some d)) [1..42 - st - dm]"
proof -
  have e: "st + dm + (1 - st - dm) = 1" "41 + (1 - st - dm) = 42 - st - dm"
    by simp_all
  have "map (cellAt evs fs tdy g st dm p) [st + dm..41] =
      map (\<lambda>i. otherMonthCell (Some (i + (1 - st - dm)))) [st + dm..41]"
    using assms by (intro map_cong [OF refl]) (simp add: cellAt_def algebra_simps)
  also have "\<dots> = map (\<lambda>d. otherMonthCell (Some d)) (map (\<lambda>i. i + (1 - st - dm)) [st + dm..41])"
    by (simp add: comp_def)
  also have "\<dots> = map (\<lambda>d. otherMonthCell (Some d)) [st + dm + (1 - st - dm)..41 + (1 - st - dm)]"
    by (simp only: map_add_upto)
  finally show ?thesis by (simp only: e)
qed

lemma cells_segments:
  assumes st0: "0 \<le> st" and st6: "st \<le> 6" and dm: "28 \<le> dm" "dm \<le> 31"
  shows "map (cellAt evs fs tdy g st dm p) [0..41] =
     map (\<lambda>d. otherMonthCell (Some d)) [p - st + 1..p]
     @ map (dayCell evs fs tdy g) [1..dm]
     @ map (\<lambda>d. otherMonthCell (Some d)) [1..42 - st - dm]"
proof -
  have s1: "[0..41] = [0..st - 1] @ [st..41]"
    using st0 st6 by (intro upto_split1) simp_all
  have "[st..41] = [st..st + dm - 1] @ [st + dm - 1 + 1..41]"
    using st6 dm by (intro upto_split2) simp_all
  then have s2: "[st..41] = [st..st + dm - 1] @ [st + dm..41]" by simp
  have d0: "0 \<le> dm" using dm by simp
  show ?thesis
    unfolding s1 map_append leading_cells
    unfolding s2 map_append current_cells trailing_cells [OF d0] ..
qed

lemma filter_otherMonthCell:
  "filter (\<lambda>c. \<not> cellOtherMonth c) (map (\<lambda>d. otherMonthCell (Some d)) xs) = []"
  by (induction xs) (simp_all add: otherMonthCell_def)

lemma filter_dayCell:
  "filter (\<lambda>c. \<not> cellOtherMonth c) (map (dayCell evs fs tdy g) ys) = map (dayCell evs fs tdy g) ys"
  by (induction ys) (simp_all add: dayCell_def Let_def)

lemma cellDate_dayCell: "map cellDate (map (dayCell evs fs tdy g) ys) = map Some ys"
  by (induction ys) (simp_all add: dayCell_def Let_def)

lemma cellDate_otherMonthCell:
  "map cellDate (map (\<lambda>d. otherMonthCell (Some d)) ys) = map Some ys"
  by (induction ys) (simp_all add: otherMonthCell_def)

lemma currentMonthCells_segments:
  "currentMonthCells (map (\<lambda>d. otherMonthCell (Some d)) xs @ map (dayCell evs fs tdy g) ys
       @ map (\<lambda>d. otherMonthCell (Some d)) zs)
     = map (dayCell evs fs tdy g) ys"
  by (simp add: currentMonthCells_def filter_otherMonthCell filter_dayCell)

lemma calendarBody_subrenders [simp]:
  "calendarBody (renderMiniCalendar tz now s) = calendarBody s"
  "calendarBody (renderUpcomingEvents tz now s) = calendarBody s"
  "calendarBody (renderTodaysEvents now s) = calendarBody s"
  by (simp_all add: renderMiniCalendar_def renderUpcomingEvents_def renderTodaysEvents_def
      Let_def split: option.splits)

lemma calendarBody_renderCalendar:
  assumes "calendarBody s \<noteq> None" and "calendarTitle s \<noteq> None"
  shows "calendarBody (renderCalendar tz now s) =
     Some (calendarLoop (calendarEvents s) (activeFilters s) now
             (calendarGrid tz (currentDate s)) 0 1 1 [])"
  using assms by (auto simp add: renderCalendar_def Let_def)

lemma length_upto_int: "length [a..b] = nat (b - a + 1)"
  by simp

lemma calendarLoop_month:
  assumes "getFullYear cur = y" and "getMonth cur = m"
    and "0 \<le> m" and "m < 12" and "y < 0 \<or> 99 < y"
    and "- 271820 \<le> y" and "y \<le> 275759" and "- 1440 \<le> tz" and "tz \<le> 1440"
    and "prevMonthOf y m = (py, pm)"
  shows "calendarLoop evs fs now (calendarGrid tz cur) 0 1 1 [] =
     map (\<lambda>d. otherMonthCell (Some d))
       [daysInMonthOf py pm - mondayIndex y m 1 + 1..daysInMonthOf py pm]
     @ map (dayCell evs fs now (calendarGrid tz cur)) [1..daysInMonthOf y m]
     @ map (\<lambda>d. otherMonthCell (Some d)) [1..42 - mondayIndex y m 1 - daysInMonthOf y m]"
proof -
  define g where "g = calendarGrid tz cur"
  have gv: "g = \<lparr>year = y, month = m, daysInMonth = Some (daysInMonthOf y m),
      startingDayOfWeek = Some (mondayIndex y m 1),
      prevMonthLastDay = Some (daysInMonthOf py pm)\<rparr>"
    unfolding g_def by (rule calendarGrid_value [OF assms(1,2,5,3,4,10,6-9)])
  have gf: "startingDayOfWeek g = Some (mondayIndex y m 1)"
    "daysInMonth g = Some (daysInMonthOf y m)"
    "prevMonthLastDay g = Some (daysInMonthOf py pm)"
    by (simp_all add: gv)
  have lr: "0 \<le> mondayIndex y m 1" "mondayIndex y m 1 \<le> 6"
    using mondayIndex_range [of y m 1] by simp_all
  have dr: "28 \<le> daysInMonthOf y m" "daysInMonthOf y m \<le> 31"
    using daysInMonthOf_bounds [of y m] by simp_all
  have d0: "0 \<le> daysInMonthOf y m" using dr by simp
  have "calendarLoop evs fs now g 0 1 1 [] =
      map (cellAt evs fs now g (mondayIndex y m 1) (daysInMonthOf y m) (daysInMonthOf py pm)) [0..41]"
    by (rule calendarLoop_cells [OF gf lr(1) d0])
  also have "\<dots> = map (\<lambda>d. otherMonthCell (Some d))
       [daysInMonthOf py pm - mondayIndex y m 1 + 1..daysInMonthOf py pm]
     @ map (dayCell evs fs now g) [1..daysInMonthOf y m]
     @ map (\<lambda>d. otherMonthCell (Some d)) [1..42 - mondayIndex y m 1 - daysInMonthOf y m]"
    by (rule cells_segments [OF lr dr])
  finally show ?thesis unfolding g_def .
qed

text \<open>
  C1 (as amended). Let the calendar body and title elements exist, let the zone lie
  within a day of UTC, and let the cursor stand in month \<open>m\<close> (0 to 11) of a year
  \<open>y\<close> from -271820 to 275759 outside 0 to 99. Then \<open>renderCalendar\<close> fills the
  body with exactly 42 cells: first the last \<open>lead\<close> days of the previous month,
  numbered up to its last day, then the days 1 to the number of days of the month, then
  the days 1, 2, ... of the next month, where \<open>lead\<close> is the position of the first of
  the month in a week that starts on Monday. The cells of the current month are exactly
  its days, in order. The cell at list position \<open>k\<close> stands in column \<open>k mod 7\<close>,
  and every cell stands in the column of its weekday counted from Monday: day \<open>d\<close> of
  the month at position \<open>lead + d - 1\<close>, the leading cells at positions 0 to
  \<open>lead - 1\<close>, the trailing day \<open>j\<close> at position \<open>lead + dim + j - 1\<close>.
\<close>

theorem renderCalendar_grid:
  assumes "calendarBody s \<noteq> None" and "calendarTitle s \<noteq> None"
    and "getFullYear (currentDate s) = y" and "getMonth (currentDate s) = m"
    and "0 \<le> m" and "m < 12" and "y < 0 \<or> 99 < y"
    and "- 271820 \<le> y" and "y \<le> 275759" and "- 1440 \<le> tz" and "tz \<le> 1440"
    and "prevMonthOf y m = (py, pm)" and "nextMonthOf y m = (ny, nm)"
  shows "\<exists>cells lead. calendarBody (renderCalendar tz now s) = Some cells
     \<and> lead = mondayIndex y m 1
     \<and> length cells = 42
     \<and> cells =
         map (\<lambda>d. otherMonthCell (Some d)) [daysInMonthOf py pm - lead + 1..daysInMonthOf py pm]
         @ map (dayCell (calendarEvents s) (activeFilters s) now (calendarGrid tz (currentDate s)))
             [1..daysInMonthOf y m]
         @ map (\<lambda>d. otherMonthCell (Some d)) [1..42 - lead - daysInMonthOf y m]
     \<and> map cellDate (currentMonthCells cells) = map Some [1..daysInMonthOf y m]
     \<and> length (currentMonthCells cells) = nat (daysInMonthOf y m)
     \<and> (\<forall>d \<in> {1..daysInMonthOf y m}. mondayIndex y m d = (lead + d - 1) mod 7)
     \<and> (\<forall>i \<in> {0..<lead}. mondayIndex py pm (daysInMonthOf py pm - lead + 1 + i) = i)
     \<and> (\<forall>j \<in> {1..42 - lead - daysInMonthOf y m}.
           mondayIndex ny nm j = (lead + daysInMonthOf y m + j - 1) mod 7)"
proof -
  define g where "g = calendarGrid tz (currentDate s)"
  define lead where "lead = mondayIndex y m 1"
  define dim where "dim = daysInMonthOf y m"
  define p where "p = daysInMonthOf py pm"
  define evs where "evs = calendarEvents s"
  define fs where "fs = activeFilters s"
  have lr: "0 \<le> lead" "lead \<le> 6"
    using mondayIndex_range [of y m 1] by (simp_all add: lead_def)
  have dr: "28 \<le> dim" "dim \<le> 31"
    using daysInMonthOf_bounds [of y m] by (simp_all add: dim_def)
  define cells where "cells = map (\<lambda>d. otherMonthCell (Some d)) [p - lead + 1..p]
      @ map (dayCell evs fs now g) [1..dim] @ map (\<lambda>d. otherMonthCell (Some d)) [1..42 - lead - dim]"
  have loop: "calendarLoop evs fs now g 0 1 1 [] = cells"
    unfolding cells_def g_def p_def lead_def dim_def
    by (rule calendarLoop_month [OF assms(3,4,5,6,7,8-11,12)])
  have body: "calendarBody (renderCalendar tz now s) = Some cells"
    unfolding calendarBody_renderCalendar [OF assms(1,2)]
    using loop by (simp add: evs_def fs_def g_def)
  have len: "length cells = 42"
    using lr dr by (simp add: cells_def)
  have cur: "currentMonthCells cells = map (dayCell evs fs now g) [1..dim]"
    unfolding cells_def by (rule currentMonthCells_segments)
  have dates: "map cellDate (currentMonthCells cells) = map Some [1..dim]"
    unfolding cur by (rule cellDate_dayCell)
  have count: "length (currentMonthCells cells) = nat dim"
    unfolding cur by simp
  have a1: "\<forall>d \<in> {1..dim}. mondayIndex y m d = (lead + d - 1) mod 7"
  proof
    fix d
    have "mondayIndex y m d = (mondayIndex y m 1 + (d - 1)) mod 7" by (rule mondayIndex_shift)
    then show "mondayIndex y m d = (lead + d - 1) mod 7" by (simp add: lead_def algebra_simps)
  qed
  have a2: "\<forall>i \<in> {0..<lead}. mondayIndex py pm (p - lead + 1 + i) = i"
  proof
    fix i
    assume i: "i \<in> {0..<lead}"
    have "dayNumber py pm (p - lead + 1 + i) = dayNumber py pm 1 + (p - lead + 1 + i) - 1"
      by (rule dayNumber_day)
    also have "\<dots> = dayNumber y m 1 + (i - lead)"
      using dayNumber_prev_month [OF assms(5,6,12)] by (simp add: p_def)
    finally have "mondayIndex py pm (p - lead + 1 + i) = (mondayIndex y m 1 + (i - lead)) mod 7"
      by (rule mondayIndex_from)
    also have "\<dots> = i mod 7" by (simp add: lead_def)
    also have "\<dots> = i" using i lr by simp
    finally show "mondayIndex py pm (p - lead + 1 + i) = i" .
  qed
  have a3: "\<forall>j \<in> {1..42 - lead - dim}. mondayIndex ny nm j = (lead + dim + j - 1) mod 7"
  proof
    fix j
    have "dayNumber ny nm j = dayNumber ny nm 1 + j - 1" by (rule dayNumber_day)
    also have "\<dots> = dayNumber y m 1 + (dim + j - 1)"
      using dayNumber_next_month [OF assms(5,6,13)] by (simp add: dim_def)
    finally have "mondayIndex ny nm j = (mondayIndex y m 1 + (dim + j - 1)) mod 7"
      by (rule mondayIndex_from)
    then show "mondayIndex ny nm j = (lead + dim + j - 1) mod 7"
      by (simp add: lead_def algebra_simps)
  qed
  show ?thesis
    apply (rule exI [of _ cells])
    apply (rule exI [of _ lead])
    apply (intro conjI)
            apply (rule body)
           apply (rule lead_def)
          apply (rule len)
         apply (simp only: cells_def p_def dim_def evs_def fs_def g_def)
        apply (simp only: dates dim_def)
       apply (simp only: count dim_def)
      apply (rule a1 [unfolded dim_def])
     apply (rule a2 [unfolded p_def])
    apply (rule a3 [unfolded dim_def])
    done
qed

text \<open>
  The claim C1 as stated fails for a cursor in the years 0 to 99, which the Date
  constructor reads as 1900 to 1999: with the cursor in February of the year 0, a leap
  year of 29 days, the grid holds the 28 days of February 1900.
\<close>

theorem renderCalendar_year_zero:
  "getFullYear (currentDate (scheduleLoaded (at 0 1 1 0 0))) = 0
   \<and> getMonth (currentDate (scheduleLoaded (at 0 1 1 0 0))) = 1
   \<and> daysInMonthOf 0 1 = 29
   \<and> length (gridCells (renderCalendar 0 (at 2025 11 16 10 0) (scheduleLoaded (at 0 1 1 0 0)))) = 42
   \<and> length (currentMonthCells
        (gridCells (renderCalendar 0 (at 2025 11 16 10 0) (scheduleLoaded (at 0 1 1 0 0))))) = 28"
  by code_simp

theorem renderCalendar_grid_witness:
  "calendarBody (scheduleLoaded (at 2025 10 16 10 0)) \<noteq> None
   \<and> calendarTitle (scheduleLoaded (at 2025 10 16 10 0)) \<noteq> None
   \<and> getFullYear (currentDate (scheduleLoaded (at 2025 10 16 10 0))) = 2025
   \<and> getMonth (currentDate (scheduleLoaded (at 2025 10 16 10 0))) = 10
   \<and> prevMonthOf 2025 10 = (2025, 9) \<and> nextMonthOf 2025 10 = (2025, 11)
   \<and> mondayIndex 2025 10 1 = 5
   \<and> length (gridCells (renderCalendar 420 (at 2025 11 16 10 0)
         (scheduleLoaded (at 2025 10 16 10 0)))) = 42
   \<and> map cellDate (gridCells (renderCalendar 420 (at 2025 11 16 10 0)
         (scheduleLoaded (at 2025 10 16 10 0)))) =
       map Some ([27, 28, 29, 30, 31] @ [1..30] @ [1, 2, 3, 4, 5, 6, 7])
   \<and> map cellDate (currentMonthCells (gridCells (renderCalendar 420 (at 2025 11 16 10 0)
         (scheduleLoaded (at 2025 10 16 10 0))))) = map Some [1..30]
   \<and> mondayIndex 2025 10 16 = 6
   \<and> mondayIndex 2025 9 29 = 2
   \<and> mondayIndex 2025 11 3 = 2"
proof -
  define s0 where "s0 = scheduleLoaded (at 2025 10 16 10 0)"
  have h: "calendarBody s0 \<noteq> None" "calendarTitle s0 \<noteq> None"
    "getFullYear (currentDate s0) = 2025" "getMonth (currentDate s0) = 10"
    by (simp_all add: s0_def scheduleLoaded_def pageLoaded_def at_def)
  have pn: "prevMonthOf 2025 10 = (2025, 9)" "nextMonthOf 2025 10 = (2025, 11)"
    by (simp_all add: prevMonthOf_def nextMonthOf_def)
  have l0: "mondayIndex 2025 10 1 = 5" by code_simp
  have d30: "daysInMonthOf 2025 10 = 30" by (simp add: daysInMonthOf_def)
  have d31: "daysInMonthOf 2025 9 = 31" by (simp add: daysInMonthOf_def)
  have b: "(0::int) \<le> 10" "(10::int) < 12" "(2025::int) < 0 \<or> 99 < (2025::int)"
    "- 271820 \<le> (2025::int)" "(2025::int) \<le> 275759" "- 1440 \<le> (420::int)" "(420::int) \<le> 1440"
    by simp_all
  from renderCalendar_grid [OF h b pn, of "at 2025 11 16 10 0"]
  obtain cells lead where
    r: "calendarBody (renderCalendar 420 (at 2025 11 16 10 0) s0) = Some cells"
      "lead = mondayIndex 2025 10 1" "length cells = 42"
      "cells =
         map (\<lambda>d. otherMonthCell (Some d)) [daysInMonthOf 2025 9 - lead + 1..daysInMonthOf 2025 9]
         @ map (dayCell (calendarEvents s0) (activeFilters s0) (at 2025 11 16 10 0)
                 (calendarGrid 420 (currentDate s0)))
             [1..daysInMonthOf 2025 10]
         @ map (\<lambda>d. otherMonthCell (Some d)) [1..42 - lead - daysInMonthOf 2025 10]"
      "map cellDate (currentMonthCells cells) = map Some [1..daysInMonthOf 2025 10]"
      "\<forall>d \<in> {1..daysInMonthOf 2025 10}. mondayIndex 2025 10 d = (lead + d - 1) mod 7"
      "\<forall>i \<in> {0..<lead}. mondayIndex 2025 9 (daysInMonthOf 2025 9 - lead + 1 + i) = i"
      "\<forall>j \<in> {1..42 - lead - daysInMonthOf 2025 10}.
           mondayIndex 2025 11 j = (lead + daysInMonthOf 2025 10 + j - 1) mod 7"
    by (elim exE conjE)
  have lead: "lead = 5" by (simp add: r(2) l0)
  have g: "gridCells (renderCalendar 420 (at 2025 11 16 10 0) s0) = cells"
    by (simp add: gridCells_def r(1))
  have "(16::int) \<in> {1..daysInMonthOf 2025 10}" by (simp add: d30)
  with r(6) have "mondayIndex 2025 10 16 = (lead + 16 - 1) mod 7" by (rule bspec)
  then have m16: "mondayIndex 2025 10 16 = 6" by (simp add: lead)
  have "(2::int) \<in> {0..<lead}" by (simp add: lead)
  with r(7) have "mondayIndex 2025 9 (daysInMonthOf 2025 9 - lead + 1 + 2) = 2" by (rule bspec)
  then have m29: "mondayIndex 2025 9 29 = 2" by (simp add: lead d31)
  have "(3::int) \<in> {1..42 - lead - daysInMonthOf 2025 10}" by (simp add: lead d30)
  with r(8) have "mondayIndex 2025 11 3 = (lead + daysInMonthOf 2025 10 + 3 - 1) mod 7"
    by (rule bspec)
  then have m3: "mondayIndex 2025 11 3 = 2" by (simp add: lead d30)
  have len: "length (gridCells (renderCalendar 420 (at 2025 11 16 10 0) s0)) = 42"
    unfolding g by (rule r(3))
  have u1: "[27..31] = [27, 28, 29, 30, 31 :: int]" by code_simp
  have u2: "[1..7] = [1, 2, 3, 4, 5, 6, 7 :: int]" by code_simp
  have all: "map cellDate (gridCells (renderCalendar 420 (at 2025 11 16 10 0) s0)) =
       map Some ([27, 28, 29, 30, 31] @ [1..30] @ [1, 2, 3, 4, 5, 6, 7])"
    unfolding g r(4) map_append cellDate_dayCell cellDate_otherMonthCell lead d30 d31
    by (simp add: u1 u2)
  have dates: "map cellDate (currentMonthCells (gridCells (renderCalendar 420 (at 2025 11 16 10 0) s0)))
      = map Some [1..30]"
    unfolding g r(5) d30 ..
  show ?thesis
    unfolding s0_def [symmetric]
    by (intro conjI h pn l0 len all dates m16 m29 m3)
qed

text \<open>
  Beyond the years of the theorem a constructed date can be invalid: with the cursor in
  September 275760, whose last day is past the range of time values, the number of days
  is NaN and the grid holds no cell of the current month.
\<close>

lemma renderCalendar_beyond_range:
  "map cellDate (currentMonthCells
      (gridCells (renderCalendar 0 (at 2025 11 16 10 0) (scheduleLoaded (at 275760 8 1 0 0))))) = []"
  by code_simp

section \<open>Properties of the schedule\<close>

lemma subrender_reads [simp]:
  "calendarEvents (renderMiniCalendar tz now s) = calendarEvents s"
  "activeFilters (renderMiniCalendar tz now s) = activeFilters s"
  "upcomingEventsList (renderMiniCalendar tz now s) = upcomingEventsList s"
  "todaysEventsList (renderMiniCalendar tz now s) = todaysEventsList s"
  "calendarEvents (renderUpcomingEvents tz now s) = calendarEvents s"
  "todaysEventsList (renderUpcomingEvents tz now s) = todaysEventsList s"
  "miniCalendarBody (renderUpcomingEvents tz now s) = miniCalendarBody s"
  "calendarEvents (renderTodaysEvents now s) = calendarEvents s"
  "miniCalendarBody (renderTodaysEvents now s) = miniCalendarBody s"
  "upcomingEventsList (renderTodaysEvents now s) = upcomingEventsList s"
  by (simp_all add: renderMiniCalendar_def renderUpcomingEvents_def renderTodaysEvents_def
      Let_def split: option.splits)

lemma calendarEvents_renderCalendar [simp]:
  "calendarEvents (renderCalendar tz now s) = calendarEvents s"
  by (simp add: renderCalendar_def Let_def)

lemma stats_subrenders [simp]:
  "scheduleEventsCount (renderMiniCalendar tz now s) = scheduleEventsCount s"
  "scheduleEventsCount (renderUpcomingEvents tz now s) = scheduleEventsCount s"
  "scheduleEventsCount (renderTodaysEvents now s) = scheduleEventsCount s"
  "scheduleMeetingsCount (renderMiniCalendar tz now s) = scheduleMeetingsCount s"
  "scheduleMeetingsCount (renderUpcomingEvents tz now s) = scheduleMeetingsCount s"
  "scheduleMeetingsCount (renderTodaysEvents now s) = scheduleMeetingsCount s"
  by (simp_all add: renderMiniCalendar_def renderUpcomingEvents_def renderTodaysEvents_def
      Let_def split: option.splits)

lemma stats_renderCalendar [simp]:
  "scheduleEventsCount (renderCalendar tz now s) = scheduleEventsCount s"
  "scheduleMeetingsCount (renderCalendar tz now s) = scheduleMeetingsCount s"
  by (simp_all add: renderCalendar_def Let_def)





lemma listed_listingOf [simp]: "listed (Some (listingOf txt xs)) = xs"
  by (cases xs) (simp_all add: listed_def listingOf_def)

lemma listed_None [simp]: "listed None = []"
  by (simp add: listed_def)



lemma cellEvents_otherMonthCell [simp]: "cellEvents (otherMonthCell x) = []"
  by (simp add: otherMonthCell_def)








lemma calendarGrid_year_month [simp]:
  "year (calendarGrid tz cur) = getFullYear cur" "month (calendarGrid tz cur) = getMonth cur"
  by (simp_all add: calendarGrid_def Let_def)












section \<open>Properties of the upcoming list\<close>

text \<open>
  C3. The claim requires every event dated today with an active category to be in the
  upcoming list. At 10:00 on 16 December 2025 in a zone seven hours east of UTC, with
  the fallback events and all four categories active, the events 1, 2 and 3 are dated
  today (the today list shows them), yet the upcoming list rendered with the calendar
  starts at event 4: \<open>renderUpcomingEvents\<close> compares the midnight UTC of the
  event's date with the current instant. The full upcoming list, which first moves its
  clock reading to midnight, shows all ten.
\<close>

theorem renderUpcomingEvents_drops_today:
  "todaysIds (renderTodaysEvents (at 2025 11 16 10 0) (scheduleLoaded (at 2025 11 16 10 0))) = [1, 2, 3]
   \<and> upcomingIds (renderUpcomingEvents 420 (at 2025 11 16 10 0) (scheduleLoaded (at 2025 11 16 10 0)))
       = [4, 5, 6, 7, 8, 9, 10]
   \<and> upcomingFullIds (renderUpcomingEventsFull 420 (at 2025 11 16 10 0)
        (scheduleLoaded (at 2025 11 16 10 0))) = [1, 2, 3, 4, 5, 6, 7, 8, 9, 10]"
  by code_simp

section \<open>Properties of the navigation\<close>

lemma visible_setDisplay [simp]:
  "visible (setDisplay el d) \<longleftrightarrow> el \<noteq> None \<and> d \<noteq> DisplayNone"
  by (cases el) (simp_all add: visible_def setDisplay_def)

lemma setDisplay_idem [simp]: "setDisplay (setDisplay el d) d' = setDisplay el d'"
  by (cases el) (simp_all add: setDisplay_def)

lemma visibleSections_hideSections [simp]: "visibleSections (hideSections s) = []"
  by (simp add: visibleSections_def hideSections_def)

lemma showSection_unknown:
  assumes "\<not> knownSection n"
  shows "showSection n s =
     (hideSections s)\<lparr>navLinks := updateNavLinks n (navLinks s), activeSection := n\<rparr>"
  using assms by (simp add: showSection_def knownSection_def Let_def hideSections_def)

lemma visibleSections_showSection_unknown:
  assumes "\<not> knownSection n"
  shows "visibleSections (showSection n s) = []"
  unfolding showSection_unknown [OF assms] by (simp add: visibleSections_def hideSections_def)

lemma activeSection_showSection [simp]: "activeSection (showSection n s) = n"
  by (simp add: showSection_def Let_def)

lemma visibleSections_showSection_known:
  assumes "knownSection n"
  shows "visibleSections (showSection n s) = (if sectionElement s n = None then [] else [n])"
  using assms
  by (auto simp add: knownSection_def showSection_def Let_def hideSections_def
      visibleSections_def sectionElement_def initializeScheduleViewStart_def startFetch_def
      initializeChatStart_def)

text \<open>
  C6 (as amended). \<open>showSection\<close> with a name outside dashboard, schedule, messages
  and profile hides all four sections, so that none is visible afterwards, starts no
  initialiser, marks the navigation links again and records the name as the active
  section. After \<open>showSection\<close> with one of the four names exactly that section is
  visible, provided its element exists. After every call at most one section is visible.
\<close>

theorem showSection_visibility:
  "(\<not> knownSection n \<longrightarrow>
      showSection n s =
        (hideSections s)\<lparr>navLinks := updateNavLinks n (navLinks s), activeSection := n\<rparr>
      \<and> visibleSections (showSection n s) = []
      \<and> activeSection (showSection n s) = n
      \<and> fetched (showSection n s) = fetched s \<and> calls (showSection n s) = calls s)
   \<and> (knownSection n \<and> sectionElement s n \<noteq> None \<longrightarrow> visibleSections (showSection n s) = [n])
   \<and> length (visibleSections (showSection n s)) \<le> 1"
proof (intro conjI impI)
  assume u: "\<not> knownSection n"
  show "showSection n s =
        (hideSections s)\<lparr>navLinks := updateNavLinks n (navLinks s), activeSection := n\<rparr>"
    by (rule showSection_unknown [OF u])
  show "visibleSections (showSection n s) = []"
    unfolding showSection_unknown [OF u] by (simp add: visibleSections_def hideSections_def)
  show "activeSection (showSection n s) = n"
    unfolding showSection_unknown [OF u] by simp
  show "fetched (showSection n s) = fetched s"
    unfolding showSection_unknown [OF u] by (simp add: hideSections_def)
  show "calls (showSection n s) = calls s"
    unfolding showSection_unknown [OF u] by (simp add: hideSections_def)
next
  assume "knownSection n \<and> sectionElement s n \<noteq> None"
  then show "visibleSections (showSection n s) = [n]"
    by (simp add: visibleSections_showSection_known)
next
  show "length (visibleSections (showSection n s)) \<le> 1"
  proof (cases "knownSection n")
    case True
    then show ?thesis by (simp add: visibleSections_showSection_known)
  next
    case False
    have "visibleSections (showSection n s) = []"
      unfolding showSection_unknown [OF False] by (simp add: visibleSections_def hideSections_def)
    then show ?thesis by simp
  qed
qed

lemma dashboardShown:
  "visibleSections (showSection ''dashboard'' (pageLoaded (at 2025 11 16 10 0))) = [''dashboard'']"
  by (simp add: visibleSections_showSection_known knownSection_def sectionElement_def
      pageLoaded_def)

theorem showSection_visibility_witness:
  "\<not> knownSection ''settings''
   \<and> visibleSections (showSection ''settings'' (pageLoaded (at 2025 11 16 10 0))) = []
   \<and> knownSection ''schedule''
   \<and> sectionElement (pageLoaded (at 2025 11 16 10 0)) ''schedule'' \<noteq> None
   \<and> visibleSections (showSection ''schedule'' (pageLoaded (at 2025 11 16 10 0))) = [''schedule'']"
proof -
  have a: "\<not> knownSection ''settings''" by (simp add: knownSection_def)
  have b: "knownSection ''schedule''" by (simp add: knownSection_def)
  have c: "sectionElement (pageLoaded (at 2025 11 16 10 0)) ''schedule'' \<noteq> None"
    by (simp add: sectionElement_def pageLoaded_def)
  note t = showSection_visibility [of "''settings''" "pageLoaded (at 2025 11 16 10 0)"]
  note t' = showSection_visibility [of "''schedule''" "pageLoaded (at 2025 11 16 10 0)"]
  from t a have d: "visibleSections (showSection ''settings'' (pageLoaded (at 2025 11 16 10 0))) = []"
    by blast
  from t' b c have e:
    "visibleSections (showSection ''schedule'' (pageLoaded (at 2025 11 16 10 0))) = [''schedule'']"
    by blast
  show ?thesis using a b c d e by simp
qed

text \<open>
  The claim C6 as stated fails: after the dashboard has been shown, a call with the
  unknown name \<open>settings\<close> is no no-op, it hides the dashboard, leaves no section
  visible and records \<open>settings\<close> as the active section.
\<close>

theorem showSection_unknown_hides_all:
  "visibleSections (showSection ''dashboard'' (pageLoaded (at 2025 11 16 10 0))) = [''dashboard'']
   \<and> activeSection (showSection ''dashboard'' (pageLoaded (at 2025 11 16 10 0))) = ''dashboard''
   \<and> visibleSections (showSection ''settings''
        (showSection ''dashboard'' (pageLoaded (at 2025 11 16 10 0)))) = []
   \<and> activeSection (showSection ''settings''
        (showSection ''dashboard'' (pageLoaded (at 2025 11 16 10 0)))) = ''settings''"
proof -
  have u: "\<not> knownSection ''settings''" by (simp add: knownSection_def)
  have k: "knownSection ''dashboard''" by (simp add: knownSection_def)
  show ?thesis
    using dashboardShown by (simp add: visibleSections_showSection_unknown [OF u])
qed

section \<open>Properties of the category filters\<close>






























lemma filterEvents_render:
  "filterEvents c tz now s = renderCalendar tz now (s\<lparr>activeFilters := toggle c (activeFilters s)\<rparr>)"
  by (simp add: filterEvents_def toggle_def Let_def)




lemma calendarTitle_subrenders [simp]:
  "calendarTitle (renderMiniCalendar tz now s) = calendarTitle s"
  "calendarTitle (renderUpcomingEvents tz now s) = calendarTitle s"
  "calendarTitle (renderTodaysEvents now s) = calendarTitle s"
  by (simp_all add: renderMiniCalendar_def renderUpcomingEvents_def renderTodaysEvents_def
      Let_def split: option.splits)







lemma renderCalendar_frame [simp]:
  "currentDate (renderCalendar tz now s) = currentDate s"
  "activeFilters (renderCalendar tz now s) = activeFilters s"
  by (simp_all add: renderCalendar_def Let_def renderMiniCalendar_def renderUpcomingEvents_def
      renderTodaysEvents_def split: option.splits)


lemma filterEvents_frame [simp]:
  "calendarEvents (filterEvents c tz now s) = calendarEvents s"
  "currentDate (filterEvents c tz now s) = currentDate s"
  "activeFilters (filterEvents c tz now s) = toggle c (activeFilters s)"
  by (simp_all add: filterEvents_render)




















end
